theory Spec2Isabelle
  imports Complex_Main "HOL-Library.Word"
begin

section \<open>The USDC monitor (\<^verbatim>\<open>usdt_monitor.py\<close>)\<close>

text \<open>
  The script polls the USDC balance of one Solana address every five minutes, records every
  rise of the balance as an inbound transfer, prints windowed statistics and posts them to a
  Discord webhook. This theory embeds its functions and proves the properties its
  specification states.

  How Python values are represented:
  \<^item> A \<^verbatim>\<open>datetime\<close> is an \<open>instant\<close>: the integer number of microseconds (the resolution
    of \<^verbatim>\<open>datetime\<close>) since \<^verbatim>\<open>datetime.min\<close>, the start of year 1; a \<^verbatim>\<open>timedelta(seconds=n)\<close>
    is \<open>n * 1000000\<close>. Arithmetic on them is exact, as in Python, and raises
    \<^verbatim>\<open>OverflowError\<close> where Python does: outside the years 1 to 9999.
  \<^item> Every reading of \<^verbatim>\<open>datetime.now()\<close> is an argument of the function that reads it.
  \<^item> A \<^verbatim>\<open>float\<close> whose digits are inspected (\<open>format_number\<close>, \<open>get_usdc_balance\<close>) is the
    rational number it denotes: every finite double is a rational, so a theorem about all
    rationals covers all finite doubles.
  \<^item> Where the code adds, subtracts and compares amounts (the polling loop, the windowed
    sums) the amount type is a parameter \<open>'a\<close> with \<open>0\<close>, \<open>+\<close>, \<open>-\<close> and \<open>\<bar>_\<bar>\<close> uninterpreted
    and a linear order: no law of addition or subtraction is used, so the theorems hold
    for the rounding arithmetic of doubles as well as for exact numbers. (Doubles other
    than NaN are linearly ordered; a balance is never NaN.) The type \<open>double\<close> below is the
    instance with the rounding of IEEE 754.
  \<^item> An exception is a value of \<open>py_exception\<close>, an instance of Python's class
    \<^verbatim>\<open>Exception\<close>, which is what every handler of the script catches. \<^verbatim>\<open>KeyboardInterrupt\<close>
    and \<^verbatim>\<open>SystemExit\<close> are not instances of it; they are the external interrupt that ends
    the process and are outside this model.
  \<^item> \<^verbatim>\<open>print\<close> can raise (a closed pipe; a character that the encoding of the console
    does not have). In the loop every \<^verbatim>\<open>print\<close> is a place where an exception can arise,
    and whether it does is given with the pass. Lines are kept as structured values, not
    as text. In \<open>get_usdc_balance\<close> and \<open>send_discord_message\<close> the one \<^verbatim>\<open>print\<close> of
    the handler is taken to succeed; the loop does not rely on this, since it lets each
    of its calls raise.
\<close>

type_synonym instant = int

datatype py_exception = Exception string

subsection \<open>\<^verbatim>\<open>format_number\<close>\<close>

text \<open>
  Python's \<^verbatim>\<open>f"{value:.10f}"\<close> for a finite float: the sign, the decimal digits of the
  integer part, a point and ten digits of fraction, of the value rounded to the nearest
  multiple of \<open>10\<^sup>-\<^sup>1\<^sup>0\<close>, a tie going to the even neighbour.
\<close>

definition round_half_even :: "rat \<Rightarrow> int" where
  "round_half_even x =
     (let f = \<lfloor>x\<rfloor>; d = x - of_int f
      in if d < 1 / 2 then f else if 1 / 2 < d then f + 1 else if even f then f else f + 1)"

definition digit_char :: "nat \<Rightarrow> char" where
  "digit_char d = ''0123456789'' ! d"

function show_nat :: "nat \<Rightarrow> string" where
  "show_nat n = (if n < 10 then [digit_char n] else show_nat (n div 10) @ [digit_char (n mod 10)])"
  by pat_completeness auto
termination
  by (relation "measure id") auto

declare show_nat.simps [simp del]

definition zero_pad :: "nat \<Rightarrow> string \<Rightarrow> string" where
  "zero_pad width s = replicate (width - length s) CHR ''0'' @ s"

definition format_10f :: "rat \<Rightarrow> string" where
  "format_10f v =
     (let n = nat (round_half_even (\<bar>v\<bar> * 10 ^ 10))
      in (if v < 0 then ''-'' else []) @ show_nat (n div 10 ^ 10) @ ''.'' @
         zero_pad 10 (show_nat (n mod 10 ^ 10)))"

text \<open>\<^verbatim>\<open>str.rstrip(c)\<close> for a single character and \<^verbatim>\<open>str.split(c)\<close>.\<close>

definition rstrip :: "char \<Rightarrow> string \<Rightarrow> string" where
  "rstrip c s = rev (dropWhile (\<lambda>x. x = c) (rev s))"

fun split_on :: "char \<Rightarrow> string \<Rightarrow> string list" where
  "split_on c [] = [[]]"
| "split_on c (x # xs) =
     (let ps = split_on c xs in if x = c then [] # ps else (x # hd ps) # tl ps)"

text \<open>
  The loop \<^verbatim>\<open>for i, digit in enumerate(reversed(integer_part))\<close>: the index, the characters
  still to visit and \<^verbatim>\<open>formatted_integer\<close>.
\<close>

fun group_loop :: "nat \<Rightarrow> string \<Rightarrow> string \<Rightarrow> string" where
  "group_loop i [] formatted_integer = formatted_integer"
| "group_loop i (digit # ds) formatted_integer =
     group_loop (Suc i) ds
       (digit # (if 0 < i \<and> i mod 3 = 0 then CHR '' '' # formatted_integer
                 else formatted_integer))"

definition format_number :: "rat \<Rightarrow> string" where
  "format_number v =
     (if v = 0 then ''0''
      else
        let parts = split_on CHR ''.'' (rstrip CHR ''.'' (rstrip CHR ''0'' (format_10f v)));
            integer_part = parts ! 0;
            decimal_part = (if 1 < length parts \<and> parts ! 1 \<noteq> [] then Some (parts ! 1) else None);
            formatted_integer = group_loop 0 (rev integer_part) []
        in case decimal_part of
             Some d \<Rightarrow> formatted_integer @ ''.'' @ d
           | None \<Rightarrow> formatted_integer)"

text \<open>
  A closed form of \<open>format_number\<close>, the loop replaced by its result; it is a step of the
  proofs and not the rule that the function is measured against, which is \<open>renders\<close>
  below. \<open>sep_every3\<close> works on the digits from the right.
\<close>

fun sep_every3 :: "string \<Rightarrow> string" where
  "sep_every3 (a # b # c # d # ds) = a # b # c # CHR '' '' # sep_every3 (d # ds)"
| "sep_every3 ds = ds"

definition group_thousands :: "string \<Rightarrow> string" where
  "group_thousands ds = rev (sep_every3 (rev ds))"

definition format_number_closed :: "rat \<Rightarrow> string" where
  "format_number_closed v =
     (if v = 0 then ''0''
      else
        let n = nat (round_half_even (v * 10 ^ 10));
            integer_digits = show_nat (n div 10 ^ 10);
            fraction_digits = rstrip CHR ''0'' (zero_pad 10 (show_nat (n mod 10 ^ 10)))
        in group_thousands integer_digits @
           (if fraction_digits = [] then [] else ''.'' @ fraction_digits))"

definition is_digit :: "char \<Rightarrow> bool" where
  "is_digit c \<longleftrightarrow> c \<in> set ''0123456789''"

text \<open>What the loop of \<open>format_number\<close> has built so far, read from the right.\<close>

fun sep_from :: "nat \<Rightarrow> string \<Rightarrow> string" where
  "sep_from i [] = []"
| "sep_from i (d # ds) =
     (if 0 < i \<and> i mod 3 = 0 then [CHR '' '', d] else [d]) @ sep_from (Suc i) ds"

text \<open>
  Reading a rendering back, with nothing of the functions above: the value of a digit is
  its character code less 48, a digit string is read in base ten, and the integer part
  is well grouped when, from the right, every three digits are followed by one space and
  more digits.
\<close>

definition digit_value :: "char \<Rightarrow> nat" where
  "digit_value c = of_char c - 48"

definition decimal_value :: "string \<Rightarrow> nat" where
  "decimal_value s = foldl (\<lambda>n c. 10 * n + digit_value c) 0 s"

fun grouped_rev :: "string \<Rightarrow> bool" where
  "grouped_rev (a # b # c # d # ds) =
     (is_digit a \<and> is_digit b \<and> is_digit c \<and> d = CHR '' '' \<and> ds \<noteq> [] \<and> grouped_rev ds)"
| "grouped_rev ds = (ds \<noteq> [] \<and> list_all is_digit ds)"

text \<open>
  \<open>n\<close> units of \<open>10\<^sup>-\<^sup>1\<^sup>0\<close> are the value \<open>v\<close> fixed to ten fractional digits: no other
  multiple is nearer, and of two equally near the even one is taken.
\<close>

definition fixed_to_10 :: "rat \<Rightarrow> nat \<Rightarrow> bool" where
  "fixed_to_10 v n \<longleftrightarrow>
     \<bar>v * 10 ^ 10 - of_nat n\<bar> < 1 / 2 \<or> (\<bar>v * 10 ^ 10 - of_nat n\<bar> = 1 / 2 \<and> even n)"

text \<open>
  \<open>renders v s\<close>: the text \<open>s\<close> is the value \<open>v\<close> as the rule of the specification renders
  it. The text splits at its point into an integer part and a fraction. The fraction has
  at most ten digits and no trailing zero, and no point stands without a fraction. The
  integer part is well grouped and has no leading zero, unless it is \<open>0\<close>. Read back, with
  the fraction filled up to ten digits, the two parts are the value fixed to ten
  fractional digits.
\<close>

definition renders :: "rat \<Rightarrow> string \<Rightarrow> bool" where
  "renders v s =
     (let integer_part = takeWhile (\<lambda>c. c \<noteq> CHR ''.'') s;
          rest = dropWhile (\<lambda>c. c \<noteq> CHR ''.'') s;
          fraction = tl rest
      in (rest = [] \<or> fraction \<noteq> []) \<and>
         list_all is_digit fraction \<and> length fraction \<le> 10 \<and>
         (fraction = [] \<or> last fraction \<noteq> CHR ''0'') \<and>
         grouped_rev (rev integer_part) \<and>
         (integer_part = ''0'' \<or> hd integer_part \<noteq> CHR ''0'') \<and>
         fixed_to_10 v
           (decimal_value (filter (\<lambda>c. c \<noteq> CHR '' '') integer_part) * 10 ^ 10 +
            decimal_value fraction * 10 ^ (10 - length fraction)))"

subsection \<open>The transaction history and its windowed sums\<close>

text \<open>
  Python's built-in \<^verbatim>\<open>sum\<close> over floats depends on the interpreter. Before CPython 3.12 it
  adds the items to \<open>0\<close> from left to right. Since CPython 3.12 it adds the first item to
  \<open>0\<close> and then runs Neumaier's compensated summation: beside the running sum it keeps
  the rounding errors of the additions in \<open>c\<close> and adds \<open>c\<close>, if it is not zero, at the end.
  The sum of no items is \<open>0\<close>.
\<close>

datatype cpython = Before_3_12 | Since_3_12

fun neumaier :: "'a \<Rightarrow> 'a \<Rightarrow> 'a list \<Rightarrow> 'a::{zero,plus,minus,abs,ord}" where
  "neumaier f_result c [] = (if c \<noteq> 0 then f_result + c else f_result)"
| "neumaier f_result c (x # xs) =
     (let t = f_result + x
      in neumaier t
           (c + (if \<bar>f_result\<bar> \<ge> \<bar>x\<bar> then (f_result - t) + x else (x - t) + f_result)) xs)"

definition py_sum :: "cpython \<Rightarrow> 'a list \<Rightarrow> 'a::{zero,plus,minus,abs,ord}" where
  "py_sum version xs =
     (case version of
        Before_3_12 \<Rightarrow> foldl (+) 0 xs
      | Since_3_12 \<Rightarrow> (case xs of [] \<Rightarrow> 0 | x # xs' \<Rightarrow> neumaier (0 + x) 0 xs'))"

text \<open>
  The range of \<^verbatim>\<open>datetime\<close>, from \<^verbatim>\<open>datetime.min\<close> to \<^verbatim>\<open>datetime.max\<close>, the last microsecond of
  the year 9999, which is day 3652059. \<^verbatim>\<open>timedelta(seconds=n)\<close> raises \<^verbatim>\<open>OverflowError\<close> when
  \<open>n\<close> seconds are more than 999999999 days either way, and so does the subtraction when
  its result is no \<^verbatim>\<open>datetime\<close>.
\<close>

definition datetime_max :: instant where
  "datetime_max = 3652059 * 86400 * 1000000 - 1"

definition is_datetime :: "instant \<Rightarrow> bool" where
  "is_datetime t \<longleftrightarrow> 0 \<le> t \<and> t \<le> datetime_max"

definition OverflowError :: py_exception where
  "OverflowError = Exception ''OverflowError''"

definition timedelta :: "int \<Rightarrow> py_exception + int" where
  "timedelta seconds =
     (if - 999999999 \<le> seconds div 86400 \<and> seconds div 86400 \<le> 999999999
      then Inr (seconds * 1000000) else Inl OverflowError)"

definition datetime_minus :: "instant \<Rightarrow> int \<Rightarrow> py_exception + instant" where
  "datetime_minus t delta = (if is_datetime (t - delta) then Inr (t - delta) else Inl OverflowError)"

text \<open>
  \<open>get_received_in_period\<close> reads the global history and the clock; both are arguments
  here, \<open>now\<close> being the value of its call of \<^verbatim>\<open>datetime.now()\<close>. \<open>in_window\<close> is the list the
  generator expression runs through, \<open>get_received_in_period\<close> the function: what it
  raises, or what it returns.
\<close>

definition in_window :: "instant \<Rightarrow> (instant \<times> 'a) list \<Rightarrow> (instant \<times> 'a) list" where
  "in_window cutoff_time history =
     filter (\<lambda>(timestamp, amount). timestamp \<ge> cutoff_time) history"

definition get_received_in_period ::
  "cpython \<Rightarrow> instant \<Rightarrow> (instant \<times> 'a) list \<Rightarrow> int \<Rightarrow>
   py_exception + 'a::{zero,plus,minus,abs,ord}" where
  "get_received_in_period version now history seconds =
     (if history = [] then Inr 0
      else
        case timedelta seconds of
          Inl e \<Rightarrow> Inl e
        | Inr delta \<Rightarrow>
            (case datetime_minus now delta of
               Inl e \<Rightarrow> Inl e
             | Inr cutoff_time \<Rightarrow> Inr (py_sum version (map snd (in_window cutoff_time history)))))"

text \<open>
  The dictionary that \<open>get_statistics_data\<close> returns has four fixed keys; a value that is
  \<^verbatim>\<open>None\<close> is \<open>None\<close> here, and both consumers of the dictionary leave such a period out.
  \<open>now\<close> is the clock as \<open>get_statistics_data\<close> reads it, \<open>clock w\<close> the clock as the call
  \<^verbatim>\<open>get_received_in_period(w)\<close> reads it a moment later. An exception of such a call leaves
  \<open>get_statistics_data\<close>.
  \<^verbatim>\<open>total_seconds()\<close> is the exact quotient here; the float that Python returns is the
  nearest double, which lies on the same side of 900, 3600 and 86400.
\<close>

record 'a statistics =
  last_5_min :: 'a
  last_15_min :: "'a option"
  last_hour :: "'a option"
  last_24h :: "'a option"

definition elapsed_seconds :: "instant \<Rightarrow> instant option \<Rightarrow> rat" where
  "elapsed_seconds now start =
     (case start of Some t0 \<Rightarrow> of_int (now - t0) / 1000000 | None \<Rightarrow> 0)"

text \<open>\<^verbatim>\<open>get_received_in_period(w) if elapsed_seconds >= w else None\<close>.\<close>

definition received_if ::
  "bool \<Rightarrow> py_exception + 'a \<Rightarrow> py_exception + 'a option" where
  "received_if enough received =
     (if enough then (case received of Inl e \<Rightarrow> Inl e | Inr x \<Rightarrow> Inr (Some x)) else Inr None)"

definition get_statistics_data ::
  "cpython \<Rightarrow> instant \<Rightarrow> (int \<Rightarrow> instant) \<Rightarrow> instant option \<Rightarrow> (instant \<times> 'a) list \<Rightarrow>
   py_exception + ('a::{zero,plus,minus,abs,ord}) statistics" where
  "get_statistics_data version now clock start history =
     (let elapsed = elapsed_seconds now start
      in case get_received_in_period version (clock 300) history 300 of
           Inl e \<Rightarrow> Inl e
         | Inr last_5_min' \<Rightarrow>
      (case received_if (elapsed \<ge> 900)
              (get_received_in_period version (clock 900) history 900) of
           Inl e \<Rightarrow> Inl e
         | Inr last_15_min' \<Rightarrow>
      (case received_if (elapsed \<ge> 3600)
              (get_received_in_period version (clock 3600) history 3600) of
           Inl e \<Rightarrow> Inl e
         | Inr last_hour' \<Rightarrow>
      (case received_if (elapsed \<ge> 86400)
              (get_received_in_period version (clock 86400) history 86400) of
           Inl e \<Rightarrow> Inl e
         | Inr last_24h' \<Rightarrow>
             Inr \<lparr>last_5_min = last_5_min', last_15_min = last_15_min',
                  last_hour = last_hour', last_24h = last_24h'\<rparr>))))"

text \<open>
  The sum of the records that are not older than \<open>w\<close> seconds when the clock shows
  \<open>clock w\<close>.
\<close>

definition window_sum ::
  "cpython \<Rightarrow> (int \<Rightarrow> instant) \<Rightarrow> (instant \<times> 'a) list \<Rightarrow> int \<Rightarrow> 'a::{zero,plus,minus,abs,ord}" where
  "window_sum version clock history w =
     py_sum version (map snd (in_window (clock w - w * 1000000) history))"

text \<open>
  The list \<open>fields\<close> that \<open>send_statistics_to_discord\<close> builds from the statistics and the
  current balance: the field names are kept as constructors, the values are the text sent.
  A period whose value is \<^verbatim>\<open>None\<close> gets no field.
\<close>

datatype field_name =
  Current_Balance_Field | Last_5_Min_Field | Last_15_Min_Field | Last_Hour_Field | Last_24h_Field

definition statistics_fields :: "rat \<Rightarrow> rat statistics \<Rightarrow> (field_name \<times> string) list" where
  "statistics_fields current_balance stats =
     [(Current_Balance_Field, format_number current_balance @ '' USDC''),
      (Last_5_Min_Field, format_number (last_5_min stats) @ '' USDC'')] @
     (case last_15_min stats of
        Some x \<Rightarrow> [(Last_15_Min_Field, format_number x @ '' USDC'')] | None \<Rightarrow> []) @
     (case last_hour stats of
        Some x \<Rightarrow> [(Last_Hour_Field, format_number x @ '' USDC'')] | None \<Rightarrow> []) @
     (case last_24h stats of
        Some x \<Rightarrow> [(Last_24h_Field, format_number x @ '' USDC'')] | None \<Rightarrow> [])"

subsection \<open>\<^verbatim>\<open>get_usdc_balance\<close>\<close>

text \<open>
  The Solana RPC client is the environment of \<open>get_usdc_balance\<close>: a record that says, for
  each call the function makes, whether the call raises or what it returns.
  \<^item> \<open>get_token_accounts_by_owner\<close> gives \<^verbatim>\<open>token_accounts.value\<close>, as the list of the
    public keys of the token accounts;
  \<^item> \<open>get_account_info\<close> gives \<^verbatim>\<open>account_info.value\<close>: \<open>None\<close> or the account, as the
    bytes of its \<^verbatim>\<open>data\<close>;
  \<^item> \<open>get_token_account_balance\<close> gives \<^verbatim>\<open>balance_response.value\<close>: \<open>None\<close> or the
    amount, as its field \<^verbatim>\<open>ui_amount\<close>, an optional float.
\<close>

type_synonym pubkey = string

record provider =
  new_client :: "py_exception option"
  pubkey_from_string :: "string \<Rightarrow> py_exception + pubkey"
  get_token_accounts_by_owner :: "pubkey \<Rightarrow> pubkey \<Rightarrow> py_exception + pubkey list"
  get_account_info :: "pubkey \<Rightarrow> py_exception + 8 word list option"
  get_token_account_balance :: "pubkey \<Rightarrow> py_exception + rat option option"

definition USDC_MINT_ADDRESS :: string where
  "USDC_MINT_ADDRESS = ''EPjFWdd5AufqSSqeM2qN1xzybapC8G4wEGGkZwyTDt1v''"

definition MONITORED_ADDRESS :: string where
  "MONITORED_ADDRESS = ''9ApaAe39Z8GEXfqm7F7HL545N4J4tN7RhF8FhS88pRNp''"

definition CHECK_INTERVAL :: nat where
  "CHECK_INTERVAL = 300"

text \<open>\<^verbatim>\<open>int.from_bytes(bs, byteorder='little')\<close>.\<close>

fun from_bytes_little :: "8 word list \<Rightarrow> nat" where
  "from_bytes_little [] = 0"
| "from_bytes_little (b # bs) = unat b + 256 * from_bytes_little bs"

text \<open>
  The handler of the inner \<^verbatim>\<open>try\<close>: the balance decoded from the account data, or \<open>None\<close>
  when the handler falls through to the final \<^verbatim>\<open>return 0.0\<close>. The quotient is exact here;
  Python returns the nearest double, which has the same sign.
\<close>

definition fallback_balance :: "8 word list option \<Rightarrow> rat option" where
  "fallback_balance account_info =
     (case account_info of
        None \<Rightarrow> None
      | Some data \<Rightarrow>
          if data \<noteq> [] \<and> length data \<ge> 72
          then Some (of_nat (from_bytes_little (take (72 - 64) (drop 64 data))) / 1000000)
          else None)"

text \<open>The body of the outer \<^verbatim>\<open>try\<close>: the exception that leaves it, or the value returned.\<close>

definition balance_query :: "provider \<Rightarrow> string \<Rightarrow> py_exception + rat" where
  "balance_query rpc address =
     (case new_client rpc of
        Some e \<Rightarrow> Inl e
      | None \<Rightarrow>
     (case pubkey_from_string rpc address of
        Inl e \<Rightarrow> Inl e
      | Inr owner_pubkey \<Rightarrow>
     (case pubkey_from_string rpc USDC_MINT_ADDRESS of
        Inl e \<Rightarrow> Inl e
      | Inr mint_pubkey \<Rightarrow>
     (case get_token_accounts_by_owner rpc owner_pubkey mint_pubkey of
        Inl e \<Rightarrow> Inl e
      | Inr [] \<Rightarrow> Inr 0
      | Inr (account_pubkey # _) \<Rightarrow>
     (case get_account_info rpc account_pubkey of
        Inl e \<Rightarrow> Inl e
      | Inr account_info \<Rightarrow>
     (case get_token_account_balance rpc account_pubkey of
        Inr None \<Rightarrow> Inr 0
      | Inr (Some ui_amount) \<Rightarrow>
          Inr (case ui_amount of None \<Rightarrow> 0 | Some a \<Rightarrow> if a = 0 then 0 else a)
      | Inl _ \<Rightarrow>
          (case fallback_balance account_info of Some balance_usdc \<Rightarrow> Inr balance_usdc
           | None \<Rightarrow> Inr 0)))))))"

datatype log_line = Balance_Error py_exception | Discord_Error py_exception

text \<open>The function: the value it returns and the lines it prints.\<close>

definition get_usdc_balance :: "provider \<Rightarrow> string \<Rightarrow> rat \<times> log_line list" where
  "get_usdc_balance rpc address =
     (case balance_query rpc address of
        Inr balance \<Rightarrow> (balance, [])
      | Inl e \<Rightarrow> (0, [Balance_Error e]))"

subsection \<open>\<^verbatim>\<open>send_discord_message\<close>\<close>

text \<open>
  A dictionary is an association list; an empty one is falsy. The webhook is the
  environment: \<open>post payload\<close> is what \<^verbatim>\<open>requests.post\<close> does with the payload, raising
  (no connection, a timeout) or returning a response with a status code.
  \<^verbatim>\<open>Response.raise_for_status\<close> raises \<^verbatim>\<open>HTTPError\<close> for the codes 400 to 599 and for no
  other. The function returns its result, the lines it prints and the payloads it has
  handed to \<^verbatim>\<open>requests.post\<close>.
\<close>

record 'v payload =
  content :: string
  embeds :: "(string \<times> 'v) list list option"

datatype http_outcome = Post_Raises py_exception | Response nat

definition raise_for_status :: "nat \<Rightarrow> py_exception option" where
  "raise_for_status status_code =
     (if 400 \<le> status_code \<and> status_code < 600 then Some (Exception ''HTTPError'') else None)"

definition discord_payload :: "string \<Rightarrow> (string \<times> 'v) list option \<Rightarrow> 'v payload" where
  "discord_payload content_arg embed_arg =
     \<lparr>content = content_arg,
      embeds = (case embed_arg of None \<Rightarrow> None
                | Some d \<Rightarrow> if d \<noteq> [] then Some [d] else None)\<rparr>"

definition send_discord_message ::
  "('v payload \<Rightarrow> http_outcome) \<Rightarrow> string \<Rightarrow> (string \<times> 'v) list option \<Rightarrow>
   bool \<times> log_line list \<times> 'v payload list" where
  "send_discord_message post content_arg embed_arg =
     (let payload = discord_payload content_arg embed_arg
      in case post payload of
           Post_Raises e \<Rightarrow> (False, [Discord_Error e], [payload])
         | Response status_code \<Rightarrow>
             (case raise_for_status status_code of
                Some e \<Rightarrow> (False, [Discord_Error e], [payload])
              | None \<Rightarrow> (True, [], [payload])))"

subsection \<open>\<^verbatim>\<open>monitor_usdc_transactions\<close>\<close>

text \<open>
  The state of the loop: the three globals and the local \<open>initial_balance\<close>, the baseline.
\<close>

record 'a monitor_state =
  total_usdc_received :: 'a
  transaction_history :: "(instant \<times> 'a) list"
  monitoring_start_time :: "instant option"
  initial_balance :: 'a

text \<open>
  What the function puts out, one value for each call of \<^verbatim>\<open>print\<close>, for the two functions
  it calls to report the statistics, and for \<^verbatim>\<open>time.sleep\<close>.
\<close>

datatype 'a event =
    Rule_Line
  | Title_Line
  | Address_Line
  | Interval_Line
  | Empty_Line
  | Start_Line instant 'a
  | Alert_Line instant
  | Received_Line 'a
  | New_Balance_Line 'a
  | Balance_Line instant 'a
  | Statistics_Block
  | Discord_Post
  | Waiting_Line
  | Error_Line instant py_exception
  | Sleep nat

text \<open>
  Some calls of \<^verbatim>\<open>print\<close> in a row, and what becomes of them: \<open>None\<close> when all of them
  succeed, \<open>Some (k, e)\<close> when the first \<open>k\<close> succeed and the next raises \<open>e\<close>. \<open>print_lines\<close>
  gives the exception raised, if any, and the lines printed.
\<close>

type_synonym print_outcome = "(nat \<times> py_exception) option"

definition print_lines ::
  "print_outcome \<Rightarrow> 'a event list \<Rightarrow> py_exception option \<times> 'a event list" where
  "print_lines outcome lines =
     (case outcome of
        None \<Rightarrow> (None, lines)
      | Some (k, e) \<Rightarrow> if k < length lines then (Some e, take k lines) else (None, lines))"

text \<open>
  What one pass of the loop meets: the clock at its start, what becomes of each call and
  of each group of prints in the order of the body, the clock as the handler reads it and
  what becomes of the handler's two prints. The functions called catch what they can; the
  \<^verbatim>\<open>try\<close> of the loop is there for what they might still raise, so here each call may raise
  any exception.
\<close>

record 'a cycle =
  current_time :: instant
  balance_read :: "py_exception + 'a"
  alert_printed :: print_outcome
  balance_printed :: print_outcome
  statistics_printed :: "py_exception option"
  statistics_sent :: "py_exception option"
  waiting_printed :: print_outcome
  error_time :: instant
  error_printed :: print_outcome

text \<open>
  A part of the body of the \<^verbatim>\<open>try\<close> gives the exception that leaves it, if any, the state
  and the output at that point. \<open>and_then\<close> runs a second part after a first, unless an
  exception has left the first.
\<close>

type_synonym 'a outcome = "py_exception option \<times> 'a monitor_state \<times> 'a event list"

definition and_then :: "'a outcome \<Rightarrow> ('a monitor_state \<Rightarrow> 'a outcome) \<Rightarrow> 'a outcome" where
  "and_then first second =
     (case first of
        (Some e, s, out) \<Rightarrow> (Some e, s, out)
      | (None, s, out) \<Rightarrow> (case second s of (r, s', out') \<Rightarrow> (r, s', out @ out')))"

definition printing :: "print_outcome \<Rightarrow> 'a event list \<Rightarrow> 'a monitor_state \<Rightarrow> 'a outcome" where
  "printing outcome lines s = (case print_lines outcome lines of (r, printed) \<Rightarrow> (r, s, printed))"

definition calling :: "py_exception option \<Rightarrow> 'a event \<Rightarrow> 'a monitor_state \<Rightarrow> 'a outcome" where
  "calling raises done s = (case raises of Some e \<Rightarrow> (Some e, s, []) | None \<Rightarrow> (None, s, [done]))"

text \<open>
  Lines 261 to 276. On a rise the total and the history are updated, then the four lines
  of the alert are printed, then the baseline is set; on a fall the baseline is set.
\<close>

definition delta_handling ::
  "'a cycle \<Rightarrow> 'a \<Rightarrow> 'a monitor_state \<Rightarrow> ('a::{zero,plus,minus,linorder}) outcome" where
  "delta_handling c current_balance s =
     (if current_balance > initial_balance s then
        let received = current_balance - initial_balance s;
            s' = s\<lparr>total_usdc_received := total_usdc_received s + received,
                   transaction_history :=
                     transaction_history s @ [(current_time c, received)]\<rparr>
        in and_then
             (printing (alert_printed c)
                [Alert_Line (current_time c), Received_Line received,
                 New_Balance_Line current_balance, Empty_Line] s')
             (\<lambda>s'. (None, s'\<lparr>initial_balance := current_balance\<rparr>, []))
      else if current_balance < initial_balance s then
        (None, s\<lparr>initial_balance := current_balance\<rparr>, [])
      else (None, s, []))"

text \<open>The body of the \<^verbatim>\<open>try\<close>, lines 254 to 286.\<close>

definition try_body ::
  "'a cycle \<Rightarrow> 'a monitor_state \<Rightarrow> ('a::{zero,plus,minus,linorder}) outcome" where
  "try_body c s =
     (case balance_read c of
        Inl e \<Rightarrow> (Some e, s, [])
      | Inr current_balance \<Rightarrow>
          and_then (delta_handling c current_balance s) (\<lambda>s.
          and_then (printing (balance_printed c)
                      [Balance_Line (current_time c) current_balance] s) (\<lambda>s.
          and_then (calling (statistics_printed c) Statistics_Block s) (\<lambda>s.
          and_then (calling (statistics_sent c) Discord_Post s) (\<lambda>s.
          printing (waiting_printed c) [Waiting_Line, Empty_Line] s)))))"

text \<open>
  One pass of \<^verbatim>\<open>while True\<close>: the \<^verbatim>\<open>try\<close>, its handler with its two prints, the sleep. The
  exception in the result is the one that leaves the loop: no handler stands around the
  prints of the handler.
\<close>

definition iteration ::
  "'a cycle \<Rightarrow> 'a monitor_state \<Rightarrow> ('a::{zero,plus,minus,linorder}) outcome" where
  "iteration c s =
     (case try_body c s of
        (None, s', out) \<Rightarrow> (None, s', out @ [Sleep CHECK_INTERVAL])
      | (Some e, s', out) \<Rightarrow>
          (case print_lines (error_printed c) [Error_Line (error_time c) e, Empty_Line] of
             (None, printed) \<Rightarrow> (None, s', out @ printed @ [Sleep CHECK_INTERVAL])
           | (Some e', printed) \<Rightarrow> (Some e', s', out @ printed)))"

text \<open>
  The loop returns only by an exception. \<open>polling cs s\<close> is its run through the passes
  \<open>cs\<close>, as far as it gets: the exception that has ended it, if any, the state it has
  reached and what it has put out.
\<close>

fun polling ::
  "'a cycle list \<Rightarrow> 'a monitor_state \<Rightarrow> ('a::{zero,plus,minus,linorder}) outcome" where
  "polling [] s = (None, s, [])"
| "polling (c # cs) s = and_then (iteration c s) (polling cs)"

text \<open>
  The start of the function: the six lines of the banner, the first reading of the
  balance, the clock, the two lines of the start. The globals are as the module sets
  them; \<open>initial_balance\<close>, not yet assigned, is shown as \<open>0\<close>.
\<close>

record 'a startup =
  banner_printed :: print_outcome
  first_read :: "py_exception + 'a"
  start_time :: instant
  start_printed :: print_outcome

definition monitor_usdc_transactions ::
  "'a startup \<Rightarrow> 'a cycle list \<Rightarrow> ('a::{zero,plus,minus,linorder}) outcome" where
  "monitor_usdc_transactions st cs =
     and_then
       (printing (banner_printed st)
          [Rule_Line, Title_Line, Address_Line, Interval_Line, Rule_Line, Empty_Line]
          \<lparr>total_usdc_received = 0, transaction_history = [],
           monitoring_start_time = None, initial_balance = 0\<rparr>) (\<lambda>s.
     case first_read st of
       Inl e \<Rightarrow> (Some e, s, [])
     | Inr first_balance \<Rightarrow>
         and_then
           (printing (start_printed st) [Start_Line (start_time st) first_balance, Empty_Line]
              (s\<lparr>initial_balance := first_balance,
                 monitoring_start_time := Some (start_time st)\<rparr>))
           (polling cs))"

text \<open>
  The first exception that arises in the body of the \<^verbatim>\<open>try\<close> of a pass, place by place
  in the order of the body: the reading of the balance, the alert (printed only on a
  rise), the line of the balance, the printing of the statistics, their sending, the
  two lines at the end.
\<close>

definition print_raises :: "print_outcome \<Rightarrow> nat \<Rightarrow> py_exception option" where
  "print_raises outcome n =
     (case outcome of None \<Rightarrow> None | Some (k, e) \<Rightarrow> if k < n then Some e else None)"

fun first_raised :: "py_exception option list \<Rightarrow> py_exception option" where
  "first_raised [] = None"
| "first_raised (Some e # rs) = Some e"
| "first_raised (None # rs) = first_raised rs"

definition raised :: "'a cycle \<Rightarrow> ('a::linorder) monitor_state \<Rightarrow> py_exception option" where
  "raised c s =
     (case balance_read c of
        Inl e \<Rightarrow> Some e
      | Inr current_balance \<Rightarrow>
          first_raised
            [if current_balance > initial_balance s then print_raises (alert_printed c) 4
             else None,
             print_raises (balance_printed c) 1,
             statistics_printed c,
             statistics_sent c,
             print_raises (waiting_printed c) 2])"

text \<open>The invariant of the running total.\<close>

definition total_is_sum :: "('a::{zero,plus,minus,abs,ord}) monitor_state \<Rightarrow> bool" where
  "total_is_sum s \<longleftrightarrow>
     total_usdc_received s = py_sum Before_3_12 (map snd (transaction_history s))"

subsection \<open>Doubles\<close>

text \<open>
  A double is kept as the rational it denotes. \<open>fl\<close> rounds a rational to the nearest
  double, a tie to the one with the even significand: \<open>normalise\<close> halves or doubles
  until the value lies between \<open>2\<^sup>5\<^sup>2\<close> and \<open>2\<^sup>5\<^sup>3\<close>, where the doubles are the integers.
  (The steps are counted down from 2200, more than any double needs; the range of the
  exponent, so overflow and subnormal numbers, is not modelled.) The sum and the
  difference of two doubles are the exact ones, rounded; a float literal is the decimal,
  rounded.
\<close>

function normalise :: "nat \<Rightarrow> rat \<Rightarrow> rat" where
  "normalise fuel m =
     (if fuel = 0 then m
      else if m < 2 ^ 52 then normalise (fuel - 1) (2 * m) / 2
      else if 2 ^ 53 \<le> m then 2 * normalise (fuel - 1) (m / 2)
      else of_int (round_half_even m))"
  by pat_completeness auto
termination
  by (relation "measure fst") auto

declare normalise.simps [simp del]

definition fl :: "rat \<Rightarrow> rat" where
  "fl x = (if x = 0 then 0 else sgn x * normalise 2200 (\<bar>x\<bar> * 2 ^ 52) / 2 ^ 52)"

datatype double = Double (value_of: rat)

instantiation double :: "{zero, plus, minus, abs, linorder}"
begin

definition zero_double :: double where
  "zero_double = Double 0"

definition plus_double :: "double \<Rightarrow> double \<Rightarrow> double" where
  "plus_double a b = Double (fl (value_of a + value_of b))"

definition minus_double :: "double \<Rightarrow> double \<Rightarrow> double" where
  "minus_double a b = Double (fl (value_of a - value_of b))"

definition abs_double :: "double \<Rightarrow> double" where
  "abs_double a = Double \<bar>value_of a\<bar>"

definition less_eq_double :: "double \<Rightarrow> double \<Rightarrow> bool" where
  "less_eq_double a b \<longleftrightarrow> value_of a \<le> value_of b"

definition less_double :: "double \<Rightarrow> double \<Rightarrow> bool" where
  "less_double a b \<longleftrightarrow> value_of a < value_of b"

instance
  by standard (auto simp: less_eq_double_def less_double_def double.expand)

end

definition double_of :: "rat \<Rightarrow> double" where
  "double_of x = Double (fl x)"

subsection \<open>Providers and webhooks of the examples\<close>

text \<open>
  \<open>rpc_base\<close> answers every call: one token account, whose balance is 150 USDC. The
  others differ from it in one call: the owner has no token account; the balance query
  times out and the account has no data to fall back on; the balance response carries a
  negative amount; the balance query times out and the account data, 165 bytes, hold
  1000000 units in the bytes 64 to 71; the node cannot be reached; no string is a key;
  the address of the mint is not a key; the balance response has no \<^verbatim>\<open>ui_amount\<close>; the
  balance response has no value.
\<close>

definition rpc_base :: provider where
  "rpc_base =
     \<lparr>new_client = None,
      pubkey_from_string = Inr,
      get_token_accounts_by_owner = (\<lambda>owner mint. Inr [''token_account'']),
      get_account_info = (\<lambda>account. Inr None),
      get_token_account_balance = (\<lambda>account. Inr (Some (Some 150)))\<rparr>"

definition rpc_no_token_account :: provider where
  "rpc_no_token_account = rpc_base\<lparr>get_token_accounts_by_owner := (\<lambda>owner mint. Inr [])\<rparr>"

definition rpc_primary_fails :: provider where
  "rpc_primary_fails =
     rpc_base\<lparr>get_token_account_balance := (\<lambda>account. Inl (Exception ''timeout''))\<rparr>"

definition rpc_negative_amount :: provider where
  "rpc_negative_amount =
     rpc_base\<lparr>get_token_account_balance := (\<lambda>account. Inr (Some (Some (- 1))))\<rparr>"

definition rpc_fallback :: provider where
  "rpc_fallback =
     rpc_primary_fails\<lparr>get_account_info :=
       (\<lambda>account. Inr (Some (replicate 64 0 @ [0x40, 0x42, 0x0F, 0, 0, 0, 0, 0] @ replicate 93 0)))\<rparr>"

definition rpc_unreachable :: provider where
  "rpc_unreachable =
     rpc_base\<lparr>get_token_accounts_by_owner := (\<lambda>owner mint. Inl (Exception ''connection refused''))\<rparr>"

definition rpc_bad_key :: provider where
  "rpc_bad_key = rpc_base\<lparr>pubkey_from_string := (\<lambda>s. Inl (Exception ''ValueError''))\<rparr>"

definition rpc_bad_mint :: provider where
  "rpc_bad_mint =
     rpc_base\<lparr>pubkey_from_string :=
       (\<lambda>s. if s = USDC_MINT_ADDRESS then Inl (Exception ''ValueError'') else Inr s)\<rparr>"

definition rpc_no_amount :: provider where
  "rpc_no_amount = rpc_base\<lparr>get_token_account_balance := (\<lambda>account. Inr (Some None))\<rparr>"

definition rpc_no_value :: provider where
  "rpc_no_value = rpc_base\<lparr>get_token_account_balance := (\<lambda>account. Inr None)\<rparr>"

text \<open>
  Webhooks: one that accepts the message (Discord answers 204), one that answers 304, one
  that limits the rate (429) and one that cannot be reached.
\<close>

definition webhook_accepts :: "string payload \<Rightarrow> http_outcome" where
  "webhook_accepts payload = Response 204"

definition webhook_not_modified :: "string payload \<Rightarrow> http_outcome" where
  "webhook_not_modified payload = Response 304"

definition webhook_rate_limited :: "string payload \<Rightarrow> http_outcome" where
  "webhook_rate_limited payload = Response 429"

definition webhook_unreachable :: "string payload \<Rightarrow> http_outcome" where
  "webhook_unreachable payload = Post_Raises (Exception ''ConnectionError'')"

text \<open>
  Times, states and passes of the examples. \<open>at_minute m\<close> is \<open>m\<close> minutes after the start of
  the year 2026, which is day 739616. The states: the baseline at 100 with nothing
  received; the baseline at 150 after one transfer of 50. The passes: one that reads a
  balance and in which every call and every print succeeds; one in which the first line
  of the alert cannot be printed (its emoji on a console in cp1251); one on a console
  that is closed, where every print raises. A start in which all succeeds.
\<close>

definition at_minute :: "int \<Rightarrow> instant" where
  "at_minute m = 739616 * 86400 * 1000000 + m * 60 * 1000000"

definition state_at_100 :: "rat monitor_state" where
  "state_at_100 =
     \<lparr>total_usdc_received = 0, transaction_history = [],
      monitoring_start_time = Some (at_minute 0), initial_balance = 100\<rparr>"

definition state_at_150 :: "rat monitor_state" where
  "state_at_150 =
     \<lparr>total_usdc_received = 50, transaction_history = [(at_minute 5, 50)],
      monitoring_start_time = Some (at_minute 0), initial_balance = 150\<rparr>"

definition quiet_pass :: "instant \<Rightarrow> 'a \<Rightarrow> 'a cycle" where
  "quiet_pass now balance =
     \<lparr>current_time = now, balance_read = Inr balance, alert_printed = None,
      balance_printed = None, statistics_printed = None, statistics_sent = None,
      waiting_printed = None, error_time = now, error_printed = None\<rparr>"

definition alert_fails :: "instant \<Rightarrow> 'a \<Rightarrow> 'a cycle" where
  "alert_fails now balance =
     (quiet_pass now balance)\<lparr>alert_printed := Some (0, Exception ''UnicodeEncodeError'')\<rparr>"

definition console_closed :: "instant \<Rightarrow> 'a \<Rightarrow> 'a cycle" where
  "console_closed now balance =
     (quiet_pass now balance)
       \<lparr>alert_printed := Some (0, Exception ''BrokenPipeError''),
        balance_printed := Some (0, Exception ''BrokenPipeError''),
        waiting_printed := Some (0, Exception ''BrokenPipeError''),
        error_printed := Some (0, Exception ''BrokenPipeError'')\<rparr>"

definition quiet_start :: "instant \<Rightarrow> 'a \<Rightarrow> 'a startup" where
  "quiet_start now balance =
     \<lparr>banner_printed = None, first_read = Inr balance, start_time = now,
      start_printed = None\<rparr>"

text \<open>
  A clock that stands still, a history of three transfers, and a run of the monitor on
  doubles: the balance is 5 at the start and is then read as 5.3, 15.31 and 16.01.
\<close>

definition frozen_clock :: "instant \<Rightarrow> int \<Rightarrow> instant" where
  "frozen_clock t w = t"

definition three_records :: "(instant \<times> rat) list" where
  "three_records = [(at_minute 0, 50), (at_minute 5, 30), (at_minute 10, 20)]"

definition readings_run :: "double outcome" where
  "readings_run =
     monitor_usdc_transactions (quiet_start (at_minute 0) (double_of 5))
       [quiet_pass (at_minute 5) (double_of 5.3),
        quiet_pass (at_minute 10) (double_of 15.31),
        quiet_pass (at_minute 15) (double_of 16.01)]"

section \<open>Properties of \<open>format_number\<close>\<close>

subsection \<open>Digits, stripping and splitting\<close>

lemma digit_char_is_digit: "d < 10 \<Longrightarrow> is_digit (digit_char d)"
  unfolding is_digit_def digit_char_def by (rule nth_mem) simp

lemma show_nat_digits: "\<forall>c \<in> set (show_nat n). is_digit c"
proof (induction n rule: show_nat.induct)
  case (1 n)
  show ?case
  proof (cases "n < 10")
    case True
    then show ?thesis by (subst show_nat.simps) (simp add: digit_char_is_digit)
  next
    case False
    with 1 show ?thesis by (subst show_nat.simps) (simp add: digit_char_is_digit)
  qed
qed

lemma show_nat_not_Nil: "show_nat n \<noteq> []"
  by (subst show_nat.simps) simp

lemma is_digit_0: "is_digit CHR ''0''"
  by (simp add: is_digit_def)

lemma zero_pad_digits: "\<forall>c \<in> set s. is_digit c \<Longrightarrow> \<forall>c \<in> set (zero_pad w s). is_digit c"
  by (auto simp: zero_pad_def is_digit_0)

lemma is_digit_not_point: "is_digit c \<Longrightarrow> c \<noteq> CHR ''.''"
  by (auto simp: is_digit_def)

lemma rstrip_append:
  "rstrip c (xs @ ys) = (if rstrip c ys = [] then rstrip c xs else xs @ rstrip c ys)"
  by (auto simp: rstrip_def dropWhile_append)

lemma rstrip_last: "rstrip c xs \<noteq> [] \<Longrightarrow> last (rstrip c xs) \<noteq> c"
  unfolding rstrip_def using hd_dropWhile [of "\<lambda>x. x = c" "rev xs"]
  by (simp add: last_rev)

lemma rstrip_id: "xs \<noteq> [] \<Longrightarrow> last xs \<noteq> c \<Longrightarrow> rstrip c xs = xs"
  unfolding rstrip_def by (cases xs rule: rev_cases) auto

lemma rstrip_subset: "set (rstrip c xs) \<subseteq> set xs"
  unfolding rstrip_def using set_dropWhileD by fastforce

lemma split_on_absent: "c \<notin> set s \<Longrightarrow> split_on c s = [s]"
  by (induction s) (auto simp: Let_def)

lemma split_on_first: "c \<notin> set xs \<Longrightarrow> split_on c (xs @ c # ys) = xs # split_on c ys"
  by (induction xs) (auto simp: Let_def)

lemma group_loop_sep_from: "group_loop i ds acc = rev (sep_from i ds) @ acc"
  by (induction i ds acc rule: group_loop.induct) auto

lemma mod3_Suc:
  "i mod 3 = 0 \<Longrightarrow> Suc i mod 3 \<noteq> 0"
  "i mod 3 = 0 \<Longrightarrow> Suc (Suc i) mod 3 \<noteq> 0"
  "i mod 3 = 0 \<Longrightarrow> Suc (Suc (Suc i)) mod 3 = 0"
  by presburger+

lemma sep_from_sep_every3:
  "i mod 3 = 0 \<Longrightarrow>
   sep_from i ds = (if 0 < i \<and> ds \<noteq> [] then CHR '' '' # sep_every3 ds else sep_every3 ds)"
proof (induction ds arbitrary: i rule: sep_every3.induct)
  case (1 a b c d ds)
  from "1.IH" [OF mod3_Suc(3) [OF "1.prems"]] "1.prems" show ?case
    by (simp add: mod3_Suc)
qed (simp_all add: mod3_Suc)

lemma group_loop_group_thousands: "group_loop 0 (rev ds) [] = group_thousands ds"
  by (simp add: group_loop_sep_from sep_from_sep_every3 group_thousands_def)

lemma strip_fixed:
  assumes I: "I \<noteq> []" "\<forall>c \<in> set I. is_digit c" and F: "\<forall>c \<in> set F. is_digit c"
  shows "split_on CHR ''.'' (rstrip CHR ''.'' (rstrip CHR ''0'' (I @ ''.'' @ F))) =
         (if rstrip CHR ''0'' F = [] then [I] else [I, rstrip CHR ''0'' F])"
proof -
  let ?F = "rstrip CHR ''0'' F"
  have Ip: "CHR ''.'' \<notin> set I" using I(2) is_digit_not_point by blast
  have Fp: "CHR ''.'' \<notin> set ?F" using F rstrip_subset [of "CHR ''0''" F] is_digit_not_point by blast
  have lastI: "last I \<noteq> CHR ''.''" using I Ip last_in_set by metis
  have dot0: "rstrip CHR ''0'' ''.'' = ''.''" and dotdot: "rstrip CHR ''.'' ''.'' = []"
    by (simp_all add: rstrip_def)
  have s1: "rstrip CHR ''0'' (''.'' @ F) = ''.'' @ ?F"
    unfolding rstrip_append [of _ "''.''" F] dot0 by simp
  have s0: "rstrip CHR ''0'' (I @ ''.'' @ F) = I @ ''.'' @ ?F"
    unfolding rstrip_append [of _ I "''.'' @ F"] s1 by simp
  show ?thesis
  proof (cases "?F = []")
    case True
    have "rstrip CHR ''.'' I = I"
      using I(1) lastI by (rule rstrip_id)
    then have "rstrip CHR ''.'' (I @ ''.'') = I"
      unfolding rstrip_append [of _ I "''.''"] dotdot by simp
    moreover have "split_on CHR ''.'' I = [I]"
      using Ip by (rule split_on_absent)
    ultimately show ?thesis using True s0 by simp
  next
    case False
    have "last ?F \<noteq> CHR ''0''" using False by (rule rstrip_last)
    moreover have "is_digit (last ?F)"
      using False F rstrip_subset [of "CHR ''0''" F] last_in_set [of ?F] by blast
    ultimately have "last (I @ ''.'' @ ?F) \<noteq> CHR ''.''"
      using False is_digit_not_point by simp
    then have "rstrip CHR ''.'' (I @ ''.'' @ ?F) = I @ ''.'' @ ?F"
      by (intro rstrip_id) simp_all
    moreover have "split_on CHR ''.'' (I @ CHR ''.'' # ?F) = [I, ?F]"
      using Ip Fp by (simp add: split_on_first split_on_absent)
    ultimately show ?thesis using False s0 by simp
  qed
qed

lemma format_number_nonneg: "0 \<le> v \<Longrightarrow> format_number v = format_number_closed v"
proof (cases "v = 0")
  case True
  then show ?thesis by (simp add: format_number_def format_number_closed_def)
next
  case False
  assume "0 \<le> v"
  define n where "n = nat (round_half_even (v * 10 ^ 10))"
  define I where "I = show_nat (n div 10 ^ 10)"
  define F where "F = zero_pad 10 (show_nat (n mod 10 ^ 10))"
  have f: "format_10f v = I @ ''.'' @ F"
    using \<open>0 \<le> v\<close> by (simp add: format_10f_def n_def I_def F_def Let_def)
  have parts: "split_on CHR ''.'' (rstrip CHR ''.'' (rstrip CHR ''0'' (format_10f v))) =
      (if rstrip CHR ''0'' F = [] then [I] else [I, rstrip CHR ''0'' F])"
    unfolding f by (rule strip_fixed) (simp_all add: I_def F_def show_nat_not_Nil show_nat_digits zero_pad_digits [OF show_nat_digits])
  have spec: "format_number_closed v = group_thousands I @
      (if rstrip CHR ''0'' F = [] then [] else ''.'' @ rstrip CHR ''0'' F)"
    using False by (simp add: format_number_closed_def n_def I_def F_def Let_def)
  show ?thesis
    unfolding spec using False
    by (simp add: format_number_def parts Let_def group_loop_group_thousands)
qed




lemma round_half_even_small: "0 \<le> x \<Longrightarrow> x < 1 / 2 \<Longrightarrow> round_half_even x = 0"
proof -
  assume a: "0 \<le> x" "x < 1 / 2"
  then have "\<lfloor>x\<rfloor> = 0" by (simp add: floor_eq_iff)
  with a show ?thesis by (simp add: round_half_even_def Let_def)
qed

lemma replicate_numeral: "replicate (numeral k) x = x # replicate (pred_numeral k) x"
  by (simp add: numeral_eq_Suc)

lemma show_nat_0: "show_nat 0 = ''0''"
  by (simp add: show_nat.simps digit_char_def)

text \<open>Rules that evaluate \<open>format_number\<close> at a numeral.\<close>

lemma show_nat_numeral:
  "show_nat (numeral k) =
     (if (numeral k :: nat) < 10 then [digit_char (numeral k)]
      else show_nat (numeral k div 10) @ [digit_char (numeral k mod 10)])"
  by (rule show_nat.simps)
lemma show_nat_1: "show_nat (Suc 0) = ''1''"
  by (subst show_nat.simps) (simp add: digit_char_def)
lemmas format_eval =
  format_number_def format_10f_def round_half_even_def Let_def show_nat_numeral show_nat_0
  show_nat_1 digit_char_def zero_pad_def replicate_numeral rstrip_def

lemma format_number_example: "format_number 1234567.5 = ''1 234 567.5''"
  by (simp add: format_eval)

subsection \<open>Reading a rendering back\<close>

lemma digit_value_digit_char: "d < 10 \<Longrightarrow> digit_value (digit_char d) = d"
proof -
  assume "d < 10"
  then have "d \<in> set [0 ..< 10]" by simp
  then have "d = 0 \<or> d = 1 \<or> d = 2 \<or> d = 3 \<or> d = 4 \<or> d = 5 \<or> d = 6 \<or> d = 7 \<or> d = 8 \<or> d = 9"
    by (simp add: upt_rec) arith
  then show ?thesis
    by (elim disjE) (simp_all add: digit_value_def digit_char_def)
qed

lemma digit_char_eq_0: "d < 10 \<Longrightarrow> (digit_char d = CHR ''0'') = (d = 0)"
proof -
  assume "d < 10"
  then have "d \<in> set [0 ..< 10]" by simp
  then have "d = 0 \<or> d = 1 \<or> d = 2 \<or> d = 3 \<or> d = 4 \<or> d = 5 \<or> d = 6 \<or> d = 7 \<or> d = 8 \<or> d = 9"
    by (simp add: upt_rec) arith
  then show ?thesis
    by (elim disjE) (simp_all add: digit_char_def)
qed

lemma decimal_value_snoc: "decimal_value (s @ [c]) = 10 * decimal_value s + digit_value c"
  by (simp add: decimal_value_def)

lemma decimal_value_show_nat: "decimal_value (show_nat n) = n"
proof (induction n rule: show_nat.induct)
  case (1 n)
  show ?case
  proof (cases "n < 10")
    case True
    then show ?thesis
      by (subst show_nat.simps) (simp add: decimal_value_def digit_value_digit_char)
  next
    case False
    with 1 have "decimal_value (show_nat (n div 10)) = n div 10" by simp
    with False show ?thesis
      by (subst show_nat.simps) (simp add: decimal_value_snoc digit_value_digit_char)
  qed
qed

lemma length_show_nat: "0 < k \<Longrightarrow> n < 10 ^ k \<Longrightarrow> length (show_nat n) \<le> k"
proof (induction n arbitrary: k rule: show_nat.induct)
  case (1 n)
  show ?case
  proof (cases "n < 10")
    case True
    with "1.prems" show ?thesis by (subst show_nat.simps) simp
  next
    case False
    with "1.prems" have k: "1 < k" by (cases "k = 1") auto
    then have "n div 10 < 10 ^ (k - 1)"
      using "1.prems"(2) by (cases k) (simp_all add: less_mult_imp_div_less mult.commute)
    with "1.IH" [OF False, of "k - 1"] k have "length (show_nat (n div 10)) \<le> k - 1"
      by simp
    with False k show ?thesis by (subst show_nat.simps) simp
  qed
qed

lemma hd_show_nat: "show_nat n = ''0'' \<or> hd (show_nat n) \<noteq> CHR ''0''"
proof (induction n rule: show_nat.induct)
  case (1 n)
  show ?case
  proof (cases "n < 10")
    case True
    then show ?thesis
      using digit_char_eq_0 [of n]
      by (subst (1 2) show_nat.simps) (cases "n = 0"; simp add: digit_char_def)
  next
    case False
    then have "n div 10 \<noteq> 0" by simp
    then have "show_nat (n div 10) \<noteq> ''0''"
      using decimal_value_show_nat [of "n div 10"] by (auto simp: decimal_value_def digit_value_def)
    with 1 False have "hd (show_nat (n div 10)) \<noteq> CHR ''0''" by simp
    with False show ?thesis
      by (subst (2) show_nat.simps) (simp add: show_nat_not_Nil)
  qed
qed

lemma decimal_value_zeros_front: "decimal_value (replicate k CHR ''0'' @ s) = decimal_value s"
proof -
  have "foldl (\<lambda>n c. 10 * n + digit_value c) 0 (replicate k CHR ''0'' @ s) =
      foldl (\<lambda>n c. 10 * n + digit_value c) 0 s"
    by (induction k) (simp_all add: digit_value_def)
  then show ?thesis by (simp only: decimal_value_def)
qed

lemma decimal_value_zeros_back:
  "decimal_value (s @ replicate j CHR ''0'') = decimal_value s * 10 ^ j"
proof (induction j)
  case 0
  then show ?case by simp
next
  case (Suc j)
  have "s @ replicate (Suc j) CHR ''0'' = (s @ replicate j CHR ''0'') @ ''0''"
    by (simp add: replicate_append_same)
  then show ?case
    using Suc by (simp only: decimal_value_snoc) (simp add: digit_value_def)
qed

lemma rstrip_decompose:
  "s = rstrip c s @ replicate (length s - length (rstrip c s)) c"
proof -
  let ?P = "\<lambda>x. x = c"
  have t: "takeWhile ?P (rev s) = replicate (length (takeWhile ?P (rev s))) c"
    by (rule replicate_length_same [symmetric]) (auto dest: set_takeWhileD)
  have "rev s = takeWhile ?P (rev s) @ dropWhile ?P (rev s)" by simp
  then have "s = rev (dropWhile ?P (rev s)) @ rev (takeWhile ?P (rev s))"
    by (metis rev_append rev_rev_ident)
  moreover have "length (takeWhile ?P (rev s)) = length s - length (rstrip c s)"
    using length_append [of "takeWhile ?P (rev s)" "dropWhile ?P (rev s)"]
    by (simp add: rstrip_def)
  ultimately show ?thesis
    using t by (metis rev_replicate rstrip_def)
qed

lemma length_rstrip: "length (rstrip c s) \<le> length s"
  by (simp add: rstrip_def length_dropWhile_le [of _ "rev s", simplified])

lemma round_half_even_nonneg: "0 \<le> x \<Longrightarrow> 0 \<le> round_half_even x"
  by (auto simp: round_half_even_def Let_def)

lemma round_half_even_nearest:
  "\<bar>x - of_int (round_half_even x)\<bar> < 1 / 2 \<or>
   (\<bar>x - of_int (round_half_even x)\<bar> = 1 / 2 \<and> even (round_half_even x))"
proof -
  define f where "f = \<lfloor>x\<rfloor>"
  define d where "d = x - of_int f"
  have d: "0 \<le> d" "d < 1" unfolding d_def f_def by linarith+
  have x: "x = of_int f + d" by (simp add: d_def)
  consider "d < 1 / 2" | "1 / 2 < d" | "d = 1 / 2" by linarith
  then show ?thesis
  proof cases
    case 1
    then have "round_half_even x = f" by (simp add: round_half_even_def Let_def f_def d_def)
    with 1 d x show ?thesis by simp
  next
    case 2
    then have "round_half_even x = f + 1" by (simp add: round_half_even_def Let_def f_def d_def)
    with 2 d x show ?thesis by simp
  next
    case 3
    then have r: "round_half_even x = (if even f then f else f + 1)"
      by (simp add: round_half_even_def Let_def f_def d_def)
    with 3 x show ?thesis by auto
  qed
qed

lemma fixed_to_10_round: "0 \<le> v \<Longrightarrow> fixed_to_10 v (nat (round_half_even (v * 10 ^ 10)))"
proof -
  assume "0 \<le> v"
  then have "0 \<le> round_half_even (v * 10 ^ 10)"
    by (intro round_half_even_nonneg) simp
  then show ?thesis
    using round_half_even_nearest [of "v * 10 ^ 10"]
    by (simp add: fixed_to_10_def even_nat_iff)
qed

subsection \<open>Grouping\<close>

lemma sep_every3_not_Nil: "ds \<noteq> [] \<Longrightarrow> sep_every3 ds \<noteq> []"
  by (induction ds rule: sep_every3.induct) simp_all

lemma grouped_rev_sep_every3:
  "ds \<noteq> [] \<Longrightarrow> list_all is_digit ds \<Longrightarrow> grouped_rev (sep_every3 ds)"
  by (induction ds rule: sep_every3.induct) (simp_all add: sep_every3_not_Nil)

lemma last_sep_every3: "ds \<noteq> [] \<Longrightarrow> last (sep_every3 ds) = last ds"
  by (induction ds rule: sep_every3.induct) (simp_all add: sep_every3_not_Nil)

lemma filter_sep_every3:
  "CHR '' '' \<notin> set ds \<Longrightarrow> filter (\<lambda>c. c \<noteq> CHR '' '') (sep_every3 ds) = ds"
  by (induction ds rule: sep_every3.induct) auto

lemma set_sep_every3: "set (sep_every3 ds) \<subseteq> insert CHR '' '' (set ds)"
  by (induction ds rule: sep_every3.induct) auto

lemma is_digit_not_space: "is_digit c \<Longrightarrow> c \<noteq> CHR '' ''"
  by (auto simp: is_digit_def)

lemma group_thousands_props:
  assumes d: "\<forall>c \<in> set ds. is_digit c" and n: "ds \<noteq> []"
  shows "CHR ''.'' \<notin> set (group_thousands ds)"
    and "grouped_rev (rev (group_thousands ds))"
    and "hd (group_thousands ds) = hd ds"
    and "filter (\<lambda>c. c \<noteq> CHR '' '') (group_thousands ds) = ds"
    and "group_thousands ds \<noteq> []"
proof -
  show "CHR ''.'' \<notin> set (group_thousands ds)"
    using set_sep_every3 [of "rev ds"] d is_digit_not_point
    by (auto simp: group_thousands_def)
  show "grouped_rev (rev (group_thousands ds))"
    using grouped_rev_sep_every3 [of "rev ds"] d n
    by (simp add: group_thousands_def list_all_iff)
  show "hd (group_thousands ds) = hd ds"
    using last_sep_every3 [of "rev ds"] n sep_every3_not_Nil [of "rev ds"]
    by (simp add: group_thousands_def hd_rev last_rev)
  have "CHR '' '' \<notin> set (rev ds)" using d is_digit_not_space by auto
  then show "filter (\<lambda>c. c \<noteq> CHR '' '') (group_thousands ds) = ds"
    by (simp add: group_thousands_def rev_filter [symmetric] filter_sep_every3)
  show "group_thousands ds \<noteq> []"
    using n sep_every3_not_Nil [of "rev ds"] by (simp add: group_thousands_def)
qed

lemma group_thousands_0: "group_thousands ''0'' = ''0''"
  by (simp add: group_thousands_def)

lemma split_at_point:
  assumes "CHR ''.'' \<notin> set G"
  shows "takeWhile (\<lambda>c. c \<noteq> CHR ''.'') (G @ (if F = [] then [] else ''.'' @ F)) = G"
    and "dropWhile (\<lambda>c. c \<noteq> CHR ''.'') (G @ (if F = [] then [] else ''.'' @ F)) =
         (if F = [] then [] else ''.'' @ F)"
proof -
  have a: "\<forall>x \<in> set G. x \<noteq> CHR ''.''" using assms by auto
  have t: "takeWhile (\<lambda>c. c \<noteq> CHR ''.'') (G @ CHR ''.'' # F) = G"
    using a by (induction G) simp_all
  have d: "dropWhile (\<lambda>c. c \<noteq> CHR ''.'') (G @ CHR ''.'' # F) = CHR ''.'' # F"
    using a by (induction G) simp_all
  show "takeWhile (\<lambda>c. c \<noteq> CHR ''.'') (G @ (if F = [] then [] else ''.'' @ F)) = G"
    using a t by simp
  show "dropWhile (\<lambda>c. c \<noteq> CHR ''.'') (G @ (if F = [] then [] else ''.'' @ F)) =
         (if F = [] then [] else ''.'' @ F)"
    using a d by simp
qed

subsection \<open>\<open>format_number\<close> renders the value\<close>

lemma format_number_parts:
  assumes v: "0 \<le> v"
  defines "n \<equiv> nat (round_half_even (v * 10 ^ 10))"
  defines "F \<equiv> rstrip CHR ''0'' (zero_pad 10 (show_nat (n mod 10 ^ 10)))"
  shows "format_number v =
         group_thousands (show_nat (n div 10 ^ 10)) @ (if F = [] then [] else ''.'' @ F)"
proof (cases "v = 0")
  case True
  have "round_half_even 0 = 0" by (simp add: round_half_even_def)
  with True have n0: "n = 0" by (simp add: n_def)
  have "zero_pad 10 (show_nat 0) = replicate 10 CHR ''0''"
    by (simp add: zero_pad_def show_nat_0 replicate_numeral)
  then have "F = []" by (simp add: F_def n0 rstrip_def)
  with True n0 show ?thesis
    using format_number_nonneg [of 0]
    by (simp add: format_number_closed_def show_nat_0 group_thousands_0)
next
  case False
  with v show ?thesis
    by (simp add: format_number_nonneg format_number_closed_def Let_def n_def F_def)
qed

lemma fraction_props:
  fixes m :: nat
  assumes m: "m < 10 ^ 10"
  defines "P \<equiv> zero_pad 10 (show_nat m)"
  defines "F \<equiv> rstrip CHR ''0'' P"
  shows "list_all is_digit F" and "length F \<le> 10" and "F = [] \<or> last F \<noteq> CHR ''0''"
    and "decimal_value F * 10 ^ (10 - length F) = m"
proof -
  have l: "length (show_nat m) \<le> 10" using length_show_nat [of 10 m] m by simp
  then have lp: "length P = 10" by (simp add: P_def zero_pad_def)
  have "\<forall>c \<in> set P. is_digit c"
    unfolding P_def by (rule zero_pad_digits) (rule show_nat_digits)
  then show "list_all is_digit F"
    using rstrip_subset [of "CHR ''0''" P] by (auto simp: F_def list_all_iff)
  show "length F \<le> 10" using length_rstrip [of "CHR ''0''" P] lp by (simp add: F_def)
  show "F = [] \<or> last F \<noteq> CHR ''0''" using rstrip_last [of "CHR ''0''" P] by (auto simp: F_def)
  have "decimal_value P = m"
    by (simp add: P_def zero_pad_def decimal_value_zeros_front decimal_value_show_nat)
  moreover have "P = F @ replicate (length P - length F) CHR ''0''"
    unfolding F_def by (rule rstrip_decompose)
  ultimately have "decimal_value (F @ replicate (length P - length F) CHR ''0'') = m" by simp
  then show "decimal_value F * 10 ^ (10 - length F) = m"
    by (simp only: decimal_value_zeros_back lp)
qed

lemma format_number_renders: "0 \<le> v \<Longrightarrow> renders v (format_number v)"
proof -
  assume v: "0 \<le> v"
  define n where "n = nat (round_half_even (v * 10 ^ 10))"
  define I where "I = show_nat (n div 10 ^ 10)"
  define F where "F = rstrip CHR ''0'' (zero_pad 10 (show_nat (n mod 10 ^ 10)))"
  define G where "G = group_thousands I"
  have s: "format_number v = G @ (if F = [] then [] else ''.'' @ F)"
    using format_number_parts [OF v] by (simp add: n_def I_def F_def G_def)
  have di: "\<forall>c \<in> set I. is_digit c" unfolding I_def by (rule show_nat_digits)
  have ni: "I \<noteq> []" unfolding I_def by (rule show_nat_not_Nil)
  note g = group_thousands_props [OF di ni, folded G_def]
  have m: "n mod 10 ^ 10 < (10::nat) ^ 10" by simp
  note f = fraction_props [OF m, folded F_def]
  have tw: "takeWhile (\<lambda>c. c \<noteq> CHR ''.'') (format_number v) = G"
    unfolding s by (rule split_at_point(1)) (rule g(1))
  have dw: "dropWhile (\<lambda>c. c \<noteq> CHR ''.'') (format_number v) = (if F = [] then [] else ''.'' @ F)"
    unfolding s by (rule split_at_point(2)) (rule g(1))
  have tl: "tl (dropWhile (\<lambda>c. c \<noteq> CHR ''.'') (format_number v)) = F"
    unfolding dw by simp
  have hd: "G = ''0'' \<or> hd G \<noteq> CHR ''0''"
  proof -
    have "I = ''0'' \<or> hd I \<noteq> CHR ''0''" unfolding I_def by (rule hd_show_nat)
    then show ?thesis
    proof
      assume "I = ''0''"
      then show ?thesis by (simp add: G_def group_thousands_0)
    next
      assume "hd I \<noteq> CHR ''0''"
      then show ?thesis by (simp add: g(3))
    qed
  qed
  have "decimal_value (filter (\<lambda>c. c \<noteq> CHR '' '') G) * 10 ^ 10 +
        decimal_value F * 10 ^ (10 - length F) = n"
    unfolding g(4) f(4) by (simp add: I_def decimal_value_show_nat)
  then have fx: "fixed_to_10 v (decimal_value (filter (\<lambda>c. c \<noteq> CHR '' '') G) * 10 ^ 10 +
        decimal_value F * 10 ^ (10 - length F))"
    using fixed_to_10_round [OF v] by (simp only: n_def)
  have r: "dropWhile (\<lambda>c. c \<noteq> CHR ''.'') (format_number v) = [] \<or> F \<noteq> []"
    unfolding dw by simp
  show ?thesis
    unfolding renders_def Let_def tl tw
    using r f(1) f(2) f(3) g(2) hd fx by blast
qed

lemma floor_numeral_div:
  "\<lfloor>(numeral a :: rat) / numeral b\<rfloor> = numeral a div numeral b"
  using floor_divide_of_int_eq [of "numeral a" "numeral b", where ?'a = rat] by simp

subsection \<open>Evaluations\<close>

lemma format_number_padding: "format_number (1 / 20) = ''0.05''"
  by (simp add: format_eval)

lemma format_number_padding_exact: "format_number (1 / 32) = ''0.03125''"
  by (simp add: format_eval floor_numeral_div)

lemma format_number_tie_down: "format_number (1 / 2048) = ''0.0004882812''"
  by (simp add: format_eval floor_numeral_div)

lemma format_number_tie_up: "format_number (3 / 2048) = ''0.0014648438''"
  by (simp add: format_eval floor_numeral_div)

lemma format_number_million: "format_number 1000000 = ''1 000 000''"
  by (simp add: format_eval)

lemma format_number_thousand: "format_number 1234.5 = ''1 234.5''"
  by (simp add: format_eval)

text \<open>
  The sign of a negative value is grouped as if it were a digit: the docstring of the
  function speaks of the digits only. The monitor passes no negative value.
\<close>

lemma format_number_negative: "format_number (- 123) = ''- 123''"
  by (simp add: format_eval)

text \<open>
  \<open>renders\<close> rejects a fraction that is not padded, an integer part that is not grouped,
  trailing zeros, a grouped fraction, a bare point, a tie rounded to the odd neighbour and
  a leading zero.
\<close>

lemma renders_rejects:
  "\<not> renders (1 / 20) ''0.5''"
  "\<not> renders 1234567.5 ''1234567.5''"
  "\<not> renders 1234567.5 ''1 234 567.50''"
  "\<not> renders 1234567.5 ''1 234 567.500 000''"
  "\<not> renders 1000 ''1 000.''"
  "\<not> renders (1 / 2048) ''0.0004882813''"
  "\<not> renders 12 ''012''"
  by (simp_all add: renders_def fixed_to_10_def decimal_value_def digit_value_def is_digit_def)

subsection \<open>The rendering rule\<close>

text \<open>
  Claim C2. \<open>format_number\<close> renders zero as \<open>0\<close>. Every non-negative value it renders as
  the rule of the specification says: the text read back is the value fixed to ten
  fractional digits (the nearest multiple of \<open>10\<^sup>-\<^sup>1\<^sup>0\<close>), the fraction has no trailing zero
  and no point stands alone, the integer part is in groups of three digits from the right
  with one space between them, and the fraction is not grouped. It renders 1234567.5 as
  \<open>1 234 567.5\<close>, one twentieth as \<open>0.05\<close>, 1/32 as \<open>0.03125\<close>, and 1/2048 and 3/2048, which lie half way
  between two multiples, as \<open>0.0004882812\<close> and \<open>0.0014648438\<close>.
\<close>

theorem format_number_rule:
  "format_number 0 = ''0'' \<and>
   format_number 1234567.5 = ''1 234 567.5'' \<and>
   (\<forall>v. 0 \<le> v \<longrightarrow> renders v (format_number v)) \<and>
   format_number (1 / 20) = ''0.05'' \<and>
   format_number (1 / 32) = ''0.03125'' \<and>
   format_number (1 / 2048) = ''0.0004882812'' \<and>
   format_number (3 / 2048) = ''0.0014648438'' \<and>
   format_number 1000000 = ''1 000 000''"
  using format_number_renders format_number_example format_number_padding
    format_number_padding_exact format_number_tie_down format_number_tie_up format_number_million
  by (simp add: format_number_def)

theorem format_number_rule_witness:
  "(0::rat) \<le> 1234567.5 \<and> renders 1234567.5 ''1 234 567.5'' \<and>
   (0::rat) \<le> 1 / 20 \<and> renders (1 / 20) ''0.05'' \<and> \<not> renders (1 / 20) ''0.5''"
proof -
  have a: "\<forall>v\<ge>0. renders v (format_number v)"
    and b: "format_number 1234567.5 = ''1 234 567.5''"
    and c: "format_number (1 / 20) = ''0.05''"
    using format_number_rule by blast+
  have "renders 1234567.5 ''1 234 567.5''"
    using a [rule_format, of "1234567.5"] unfolding b by simp
  moreover have "renders (1 / 20) ''0.05''"
    using a [rule_format, of "1 / 20"] unfolding c by simp
  moreover have "\<not> renders (1 / 20) ''0.5''"
    by (simp add: renders_def fixed_to_10_def decimal_value_def digit_value_def is_digit_def)
  ultimately show ?thesis by simp
qed

subsection \<open>Values that render as zero\<close>

text \<open>
  Claim C10. A value above zero and below \<open>5 / 10 ^ 11\<close> is fixed to ten zero digits, so
  \<open>format_number\<close> renders it as \<open>0\<close>, which is also how it renders zero: the output
  \<open>0\<close> does not say that the amount was zero.
\<close>

theorem format_number_tiny:
  assumes "0 < v" and "v < 5 / 10 ^ 11"
  shows "format_number v = ''0'' \<and> format_number v = format_number 0"
proof -
  have "round_half_even (\<bar>v\<bar> * 10 ^ 10) = 0"
    using assms by (intro round_half_even_small) simp_all
  then have "format_10f v = ''0.0000000000''"
    using assms(1) by (simp add: format_10f_def show_nat_0 zero_pad_def replicate_numeral)
  then have "format_number v = ''0''"
    using assms(1) by (simp add: format_number_def rstrip_def)
  then show ?thesis by (simp add: format_number_def)
qed

theorem format_number_tiny_witness:
  "(0::rat) < 1 / 10 ^ 11 \<and> (1::rat) / 10 ^ 11 < 5 / 10 ^ 11 \<and>
   format_number (1 / 10 ^ 11) = ''0'' \<and> format_number (1 / 10 ^ 11) = format_number 0"
  using format_number_tiny [of "1 / 10 ^ 11"] by (simp add: format_number_def)

section \<open>Properties of the windowed sums and the statistics\<close>

lemma timedelta_in_range:
  assumes "is_datetime now" and "is_datetime (now - seconds * 1000000)"
  shows "timedelta seconds = Inr (seconds * 1000000)"
proof -
  from assms have "- 315537897600000000 < seconds * 1000000"
    and "seconds * 1000000 < 315537897600000000"
    by (simp_all add: is_datetime_def datetime_max_def)
  then have "- 315537897600 < seconds" and "seconds < 315537897600"
    by simp_all
  then have "- 999999999 \<le> seconds div 86400" and "seconds div 86400 \<le> 999999999"
    by simp_all
  then show ?thesis by (simp add: timedelta_def)
qed

lemma get_received_in_period_empty: "get_received_in_period version now [] seconds = Inr 0"
  by (simp add: get_received_in_period_def)

lemma get_received_in_period_in_range:
  assumes "is_datetime now" and "is_datetime (now - seconds * 1000000)"
  shows "get_received_in_period version now history seconds =
     Inr (py_sum version (map snd (in_window (now - seconds * 1000000) history)))"
proof (cases "history = []")
  case True
  then show ?thesis by (simp add: get_received_in_period_def in_window_def py_sum_def split: cpython.split)
next
  case False
  then show ?thesis
    using assms(2) by (simp add: get_received_in_period_def timedelta_in_range [OF assms]
        datetime_minus_def)
qed

lemma get_received_in_period_out_of_range:
  assumes "history \<noteq> []" and "\<not> is_datetime (now - seconds * 1000000)"
  shows "get_received_in_period version now history seconds = Inl OverflowError"
  using assms
  by (simp add: get_received_in_period_def timedelta_def datetime_minus_def)

lemma in_window_snoc:
  "in_window cutoff (history @ [(timestamp, amount)]) =
     (if timestamp \<ge> cutoff then in_window cutoff history @ [(timestamp, amount)]
      else in_window cutoff history)"
  by (simp add: in_window_def)

text \<open>
  Against claim C3 as it is stated (for every instant and every window length the
  function returns the sum of the window): with a history that is not empty and a window
  of \<open>10\<^sup>1\<^sup>1\<close> seconds the cutoff lies before the year 1, the subtraction
  \<^verbatim>\<open>datetime.now() - timedelta(seconds=seconds)\<close> raises \<^verbatim>\<open>OverflowError\<close> and the function
  returns nothing.
\<close>

theorem get_received_in_period_raises:
  "is_datetime (at_minute 10) \<and>
   get_received_in_period Before_3_12 (at_minute 10) three_records 100000000000 =
     Inl OverflowError \<and>
   get_received_in_period Since_3_12 (at_minute 10) three_records 100000000000 =
     Inl OverflowError"
  by (simp add: get_received_in_period_def timedelta_def datetime_minus_def is_datetime_def
      datetime_max_def at_minute_def three_records_def)

text \<open>
  Claim C3, amended. For an empty history \<open>get_received_in_period\<close> returns zero. For
  every history, every reading \<open>now\<close> of the clock and every window length for which \<open>now\<close>
  minus the window is a \<^verbatim>\<open>datetime\<close>, it returns the built-in sum of the amounts of exactly
  the records whose timestamp is at or after \<open>now\<close> minus the window, in the order of the
  history; when that instant is not a \<^verbatim>\<open>datetime\<close> and the history is not empty it raises
  \<^verbatim>\<open>OverflowError\<close>. A record is in the window if it is that recent and is left out if it
  is older: one exactly at the boundary is counted, one a microsecond older is not. The
  built-in sum of no amount is zero, and of one amount it is zero plus the amount.
\<close>

theorem get_received_in_period_window:
  "get_received_in_period version now [] seconds = Inr 0 \<and>
   (is_datetime now \<and> is_datetime (now - seconds * 1000000) \<longrightarrow>
      get_received_in_period version now history seconds =
        Inr (py_sum version (map snd (in_window (now - seconds * 1000000) history)))) \<and>
   (history \<noteq> [] \<and> \<not> is_datetime (now - seconds * 1000000) \<longrightarrow>
      get_received_in_period version now history seconds = Inl OverflowError) \<and>
   in_window cutoff [] = [] \<and>
   in_window cutoff (history @ [(timestamp, amount)]) =
     (if timestamp \<ge> cutoff then in_window cutoff history @ [(timestamp, amount)]
      else in_window cutoff history) \<and>
   in_window cutoff (history @ [(cutoff, amount)]) = in_window cutoff history @ [(cutoff, amount)] \<and>
   in_window cutoff (history @ [(cutoff - 1, amount)]) = in_window cutoff history \<and>
   ((timestamp, amount) \<in> set (in_window cutoff history)) =
     ((timestamp, amount) \<in> set history \<and> timestamp \<ge> cutoff) \<and>
   py_sum version [] = 0 \<and> py_sum version [amount] = 0 + amount"
proof -
  have "py_sum version [] = 0" "py_sum version [amount] = 0 + amount"
    by (simp_all add: py_sum_def split: cpython.split)
  moreover have "in_window cutoff [] = []"
    "((timestamp, amount) \<in> set (in_window cutoff history)) =
     ((timestamp, amount) \<in> set history \<and> timestamp \<ge> cutoff)"
    by (auto simp: in_window_def)
  ultimately show ?thesis
    using get_received_in_period_empty [of version now seconds]
      get_received_in_period_in_range [of now seconds version history]
      get_received_in_period_out_of_range [of history now seconds version]
    by (auto simp: in_window_snoc)
qed

theorem get_received_in_period_window_witness:
  "is_datetime (at_minute 10) \<and> is_datetime (at_minute 10 - 300 * 1000000) \<and>
   in_window (at_minute 10 - 300 * 1000000) three_records =
     [(at_minute 5, 30), (at_minute 10, 20)] \<and>
   get_received_in_period Since_3_12 (at_minute 10) three_records 300 = Inr 50 \<and>
   get_received_in_period Before_3_12 (at_minute 10) three_records 300 = Inr 50 \<and>
   three_records \<noteq> [] \<and> \<not> is_datetime (at_minute 10 - 100000000000 * 1000000) \<and>
   get_received_in_period Since_3_12 (at_minute 10) three_records 100000000000 =
     Inl OverflowError"
proof -
  have r: "is_datetime (at_minute 10)" "is_datetime (at_minute 10 - 300 * 1000000)"
    "\<not> is_datetime (at_minute 10 - 100000000000 * 1000000)"
    by (simp_all add: is_datetime_def datetime_max_def at_minute_def)
  have e: "three_records \<noteq> []"
    by (simp add: three_records_def)
  have w: "in_window (at_minute 10 - 300 * 1000000) three_records =
      [(at_minute 5, 30), (at_minute 10, 20)]"
    by (simp add: in_window_def three_records_def at_minute_def)
  have "get_received_in_period version (at_minute 10) three_records 300 =
      Inr (py_sum version (map snd (in_window (at_minute 10 - 300 * 1000000) three_records)))"
    for version :: cpython
    using get_received_in_period_window [where version = version and now = "at_minute 10"
        and seconds = 300 and history = three_records and cutoff = 0 and timestamp = 0
        and amount = 0] r
    by blast
  then have a: "get_received_in_period version (at_minute 10) three_records 300 = Inr 50"
    for version :: cpython
    unfolding w by (simp add: py_sum_def Let_def split: cpython.split)
  have b: "get_received_in_period Since_3_12 (at_minute 10) three_records 100000000000 =
      Inl OverflowError"
    using get_received_in_period_window [where version = Since_3_12 and now = "at_minute 10"
        and seconds = 100000000000 and history = three_records and cutoff = 0
        and timestamp = 0 and amount = "0::rat"] r e
    by blast
  from r e w a b show ?thesis by simp
qed

lemma elapsed_seconds_ge:
  "(elapsed_seconds now (Some t0) \<ge> of_int w) = (now - t0 \<ge> w * 1000000)"
proof -
  have "(of_int w \<le> (of_int (now - t0) :: rat) / 1000000) = (of_int w * 1000000 \<le> (of_int (now - t0) :: rat))"
    by (simp add: pos_le_divide_eq)
  also have "\<dots> = ((of_int (w * 1000000) :: rat) \<le> of_int (now - t0))"
    by simp
  also have "\<dots> = (w * 1000000 \<le> now - t0)"
    by (rule of_int_le_iff)
  finally show ?thesis by (simp add: elapsed_seconds_def)
qed

lemma received_in_window_sum:
  assumes "history = [] \<or> (86400 * 1000000 \<le> clock w \<and> clock w \<le> datetime_max)"
    and "0 \<le> w" and "w \<le> 86400"
  shows "get_received_in_period version (clock w) history w = Inr (window_sum version clock history w)"
proof (cases "history = []")
  case True
  then show ?thesis
    by (simp add: get_received_in_period_def window_sum_def in_window_def py_sum_def
        split: cpython.split)
next
  case False
  with assms have "is_datetime (clock w)" and "is_datetime (clock w - w * 1000000)"
    by (simp_all add: is_datetime_def)
  then show ?thesis
    unfolding window_sum_def by (rule get_received_in_period_in_range)
qed

lemma get_statistics_data_value:
  assumes "history = [] \<or> (\<forall>w. 86400 * 1000000 \<le> clock w \<and> clock w \<le> datetime_max)"
  shows "get_statistics_data version now clock start history =
     Inr \<lparr>last_5_min = window_sum version clock history 300,
          last_15_min =
            (if elapsed_seconds now start \<ge> 900
             then Some (window_sum version clock history 900) else None),
          last_hour =
            (if elapsed_seconds now start \<ge> 3600
             then Some (window_sum version clock history 3600) else None),
          last_24h =
            (if elapsed_seconds now start \<ge> 86400
             then Some (window_sum version clock history 86400) else None)\<rparr>"
proof -
  have "get_received_in_period version (clock w) history w =
      Inr (window_sum version clock history w)" if "0 \<le> w" "w \<le> 86400" for w
    using assms that by (intro received_in_window_sum) auto
  from this [of 300] this [of 900] this [of 3600] this [of 86400] show ?thesis
    by (simp add: get_statistics_data_def received_if_def Let_def)
qed

text \<open>
  Claim C4. While the clock shows a \<^verbatim>\<open>datetime\<close> at least a day after the first one (or
  the history is empty), so that every cutoff is a \<^verbatim>\<open>datetime\<close>: the statistics always hold
  the sum of the last 5 minutes. They hold the sums of the last 15 minutes, the last hour
  and the last 24 hours if and only if the time elapsed since the start of the monitoring
  is at least 900 s, 3600 s and 86400 s, and \<open>None\<close> otherwise (the message sent then has
  no field for the period, by \<open>statistics_fields_names\<close> below). Before the monitoring has
  started nothing has elapsed. When exactly 900 s have elapsed the sum of 15 minutes is
  there (zero for an empty history); a microsecond earlier it is not.
\<close>

theorem get_statistics_data_gating:
  assumes "history = [] \<or> (\<forall>w. 86400 * 1000000 \<le> clock w \<and> clock w \<le> datetime_max)"
  shows
  "get_statistics_data version now clock start history =
     Inr \<lparr>last_5_min = window_sum version clock history 300,
          last_15_min =
            (if elapsed_seconds now start \<ge> 900
             then Some (window_sum version clock history 900) else None),
          last_hour =
            (if elapsed_seconds now start \<ge> 3600
             then Some (window_sum version clock history 3600) else None),
          last_24h =
            (if elapsed_seconds now start \<ge> 86400
             then Some (window_sum version clock history 86400) else None)\<rparr> \<and>
   get_received_in_period version (clock 300) history 300 =
     Inr (window_sum version clock history 300) \<and>
   get_received_in_period version (clock 900) history 900 =
     Inr (window_sum version clock history 900) \<and>
   get_received_in_period version (clock 3600) history 3600 =
     Inr (window_sum version clock history 3600) \<and>
   get_received_in_period version (clock 86400) history 86400 =
     Inr (window_sum version clock history 86400) \<and>
   (elapsed_seconds now (Some t0) \<ge> 900) = (now - t0 \<ge> 900 * 1000000) \<and>
   (elapsed_seconds now (Some t0) \<ge> 3600) = (now - t0 \<ge> 3600 * 1000000) \<and>
   (elapsed_seconds now (Some t0) \<ge> 86400) = (now - t0 \<ge> 86400 * 1000000) \<and>
   elapsed_seconds now None = 0 \<and>
   elapsed_seconds (t0 + 900 * 1000000) (Some t0) = 900 \<and>
   get_statistics_data version (t0 + 900 * 1000000) clock (Some t0) history =
     Inr \<lparr>last_5_min = window_sum version clock history 300,
          last_15_min = Some (window_sum version clock history 900),
          last_hour = None, last_24h = None\<rparr> \<and>
   get_statistics_data version (t0 + 900 * 1000000 - 1) clock (Some t0) history =
     Inr \<lparr>last_5_min = window_sum version clock history 300,
          last_15_min = None, last_hour = None, last_24h = None\<rparr> \<and>
   window_sum version clock [] 900 = (0::'a::{zero,plus,minus,abs,ord})"
proof -
  have ge: "(elapsed_seconds now (Some t0) \<ge> 900) = (now - t0 \<ge> 900 * 1000000)"
    "(elapsed_seconds now (Some t0) \<ge> 3600) = (now - t0 \<ge> 3600 * 1000000)"
    "(elapsed_seconds now (Some t0) \<ge> 86400) = (now - t0 \<ge> 86400 * 1000000)" for now
    using elapsed_seconds_ge [of 900 now t0] elapsed_seconds_ge [of 3600 now t0]
      elapsed_seconds_ge [of 86400 now t0] by simp_all
  have received: "get_received_in_period version (clock w) history w =
      Inr (window_sum version clock history w)" if "0 \<le> w" "w \<le> 86400" for w
    using assms that by (intro received_in_window_sum) auto
  have el: "elapsed_seconds now None = 0" "elapsed_seconds (t0 + 900 * 1000000) (Some t0) = 900"
    by (simp_all add: elapsed_seconds_def)
  have empty: "window_sum version clock [] 900 = (0::'a)"
    by (simp add: window_sum_def in_window_def py_sum_def split: cpython.split)
  have at: "get_statistics_data version (t0 + 900 * 1000000) clock (Some t0) history =
     Inr \<lparr>last_5_min = window_sum version clock history 300,
          last_15_min = Some (window_sum version clock history 900),
          last_hour = None, last_24h = None\<rparr>"
    by (simp add: get_statistics_data_value [OF assms] ge)
  have before: "get_statistics_data version (t0 + 900 * 1000000 - 1) clock (Some t0) history =
     Inr \<lparr>last_5_min = window_sum version clock history 300,
          last_15_min = None, last_hour = None, last_24h = None\<rparr>"
    by (simp add: get_statistics_data_value [OF assms] ge)
  show ?thesis
    using get_statistics_data_value [OF assms, of version now start]
      received [of 300] received [of 900] received [of 3600] received [of 86400]
      ge [of now] el empty at before
    by simp
qed

theorem get_statistics_data_gating_witness:
  "(three_records = [] \<or>
    (86400 * 1000000 \<le> at_minute 15 \<and> at_minute 15 \<le> datetime_max)) \<and>
   elapsed_seconds (at_minute 15) (Some (at_minute 0)) = 900 \<and>
   get_statistics_data Since_3_12 (at_minute 15) (frozen_clock (at_minute 15))
       (Some (at_minute 0)) three_records =
     Inr \<lparr>last_5_min = 20, last_15_min = Some 100, last_hour = None, last_24h = None\<rparr> \<and>
   get_statistics_data Since_3_12 (at_minute 15 - 1) (frozen_clock (at_minute 15))
       (Some (at_minute 0)) three_records =
     Inr \<lparr>last_5_min = 20, last_15_min = None, last_hour = None, last_24h = None\<rparr>"
proof -
  have c: "three_records = [] \<or>
      (\<forall>w. 86400 * 1000000 \<le> frozen_clock (at_minute 15) w \<and>
           frozen_clock (at_minute 15) w \<le> datetime_max)"
    by (simp add: frozen_clock_def at_minute_def datetime_max_def)
  have s: "window_sum Since_3_12 (frozen_clock (at_minute 15)) three_records 300 = 20"
    "window_sum Since_3_12 (frozen_clock (at_minute 15)) three_records 900 = 100"
    by (simp_all add: window_sum_def frozen_clock_def at_minute_def three_records_def
        in_window_def py_sum_def Let_def)
  have e: "elapsed_seconds (at_minute 15) (Some (at_minute 0)) = 900"
    "\<not> elapsed_seconds (at_minute 15 - 1) (Some (at_minute 0)) \<ge> 900"
    "\<not> elapsed_seconds (at_minute 15) (Some (at_minute 0)) \<ge> 3600"
    "\<not> elapsed_seconds (at_minute 15 - 1) (Some (at_minute 0)) \<ge> 3600"
    by (simp_all add: elapsed_seconds_def at_minute_def)
  have h: "three_records = [] \<or>
      (86400 * 1000000 \<le> at_minute 15 \<and> at_minute 15 \<le> datetime_max)"
    by (simp add: at_minute_def datetime_max_def)
  have a: "get_statistics_data Since_3_12 (at_minute 0 + 900 * 1000000)
        (frozen_clock (at_minute 15)) (Some (at_minute 0)) three_records =
      Inr \<lparr>last_5_min = 20, last_15_min = Some 100, last_hour = None, last_24h = None\<rparr>"
    and b: "get_statistics_data Since_3_12 (at_minute 0 + 900 * 1000000 - 1)
        (frozen_clock (at_minute 15)) (Some (at_minute 0)) three_records =
      Inr \<lparr>last_5_min = 20, last_15_min = None, last_hour = None, last_24h = None\<rparr>"
    using get_statistics_data_gating [OF c, of Since_3_12 "at_minute 15" "Some (at_minute 0)"
        "at_minute 0"]
    unfolding s by blast+
  have m: "at_minute 0 + 900 * 1000000 = at_minute 15"
    by (simp add: at_minute_def)
  from h e(1) a b show ?thesis
    unfolding m by simp
qed

lemma statistics_fields_names:
  assumes "get_statistics_data version now clock start history = Inr stats"
  shows "map fst (statistics_fields current_balance stats) =
     [Current_Balance_Field, Last_5_Min_Field] @
     (if elapsed_seconds now start \<ge> 900 then [Last_15_Min_Field] else []) @
     (if elapsed_seconds now start \<ge> 3600 then [Last_Hour_Field] else []) @
     (if elapsed_seconds now start \<ge> 86400 then [Last_24h_Field] else [])"
  using assms
  by (auto simp: statistics_fields_def get_statistics_data_def received_if_def Let_def
      split: sum.splits if_splits)

section \<open>Properties of the polling loop\<close>

subsection \<open>The running total\<close>

lemma and_then_Some: "and_then (Some e, s, out) second = (Some e, s, out)"
  by (simp add: and_then_def)

lemma and_then_None:
  "and_then (None, s, out) second =
     (fst (second s), fst (snd (second s)), out @ snd (snd (second s)))"
  by (simp add: and_then_def split: prod.split)

lemma and_then_state:
  "fst (snd (and_then first second)) =
     (case fst first of Some e \<Rightarrow> fst (snd first) | None \<Rightarrow> fst (snd (second (fst (snd first)))))"
  by (cases first; cases "fst first") (auto simp: and_then_def split: prod.split)

lemma printing_state: "fst (snd (printing outcome lines s)) = s"
  by (simp add: printing_def split: prod.split)

lemma calling_state: "fst (snd (calling raises done s)) = s"
  by (simp add: calling_def split: option.split)

lemma and_then_inv:
  assumes "P (fst (snd first))" and "\<And>s. P s \<Longrightarrow> P (fst (snd (second s)))"
  shows "P (fst (snd (and_then first second)))"
  using assms by (simp add: and_then_state split: option.split)

lemma py_sum_fold_Nil: "py_sum Before_3_12 [] = 0"
  by (simp add: py_sum_def)

lemma py_sum_fold_snoc: "py_sum Before_3_12 (xs @ [x]) = py_sum Before_3_12 xs + x"
  by (simp add: py_sum_def)

lemma delta_handling_total_is_sum:
  "total_is_sum s \<Longrightarrow> total_is_sum (fst (snd (delta_handling c current_balance s)))"
  by (simp add: delta_handling_def Let_def and_then_state printing_state total_is_sum_def
      py_sum_fold_snoc split: option.split)

lemma try_body_state:
  "fst (snd (try_body c s)) =
     (case balance_read c of Inl e \<Rightarrow> s
      | Inr current_balance \<Rightarrow> fst (snd (delta_handling c current_balance s)))"
  by (simp add: try_body_def and_then_state printing_state calling_state
      split: sum.split option.split)

lemma try_body_total_is_sum: "total_is_sum s \<Longrightarrow> total_is_sum (fst (snd (try_body c s)))"
  by (simp add: try_body_state delta_handling_total_is_sum split: sum.split)

lemma iteration_state: "fst (snd (iteration c s)) = fst (snd (try_body c s))"
  by (simp add: iteration_def split: prod.split option.split)

lemma iteration_total_is_sum: "total_is_sum s \<Longrightarrow> total_is_sum (fst (snd (iteration c s)))"
  by (simp add: iteration_state try_body_total_is_sum)

lemma polling_total_is_sum: "total_is_sum s \<Longrightarrow> total_is_sum (fst (snd (polling cs s)))"
proof (induction cs arbitrary: s)
  case Nil
  then show ?case by simp
next
  case (Cons c cs)
  from Cons.prems have "total_is_sum (fst (snd (iteration c s)))"
    by (rule iteration_total_is_sum)
  moreover from this have "total_is_sum (fst (snd (polling cs (fst (snd (iteration c s))))))"
    by (rule Cons.IH)
  ultimately show ?case
    by (simp add: and_then_state split: option.split)
qed

lemma monitor_state:
  "fst (snd (monitor_usdc_transactions st cs)) =
     (let s0 = \<lparr>total_usdc_received = 0, transaction_history = [],
                 monitoring_start_time = None, initial_balance = 0\<rparr>
      in case print_raises (banner_printed st) 6 of
           Some e \<Rightarrow> s0
         | None \<Rightarrow>
             (case first_read st of
                Inl e \<Rightarrow> s0
              | Inr first_balance \<Rightarrow>
                  (let s = s0\<lparr>initial_balance := first_balance,
                              monitoring_start_time := Some (start_time st)\<rparr>
                   in case print_raises (start_printed st) 2 of
                        Some e \<Rightarrow> s
                      | None \<Rightarrow> fst (snd (polling cs s)))))"
  by (simp add: monitor_usdc_transactions_def and_then_state printing_def print_lines_def
      print_raises_def Let_def split: sum.split option.split prod.split)

lemma monitor_total_is_sum: "total_is_sum (fst (snd (monitor_usdc_transactions st cs)))"
proof -
  have 0: "total_is_sum \<lparr>total_usdc_received = 0, transaction_history = [],
      monitoring_start_time = None, initial_balance = (0::'a)\<rparr>"
    by (simp add: total_is_sum_def py_sum_fold_Nil)
  have 1: "total_is_sum \<lparr>total_usdc_received = 0, transaction_history = [],
      monitoring_start_time = Some t, initial_balance = (b::'a)\<rparr>" for t b
    by (simp add: total_is_sum_def py_sum_fold_Nil)
  show ?thesis
    using 0 1 polling_total_is_sum [OF 1]
    by (auto simp: monitor_state Let_def split: sum.split option.split)
qed

text \<open>
  Claim C1, amended. Whatever the loop meets (any first balance, any start, any run of
  passes, with any readings and any exceptions, at any of its calls and prints), in the
  state it has reached the running total is the amounts of the records of the history
  added to zero one after the other, from the oldest to the newest. This is the built-in
  sum of the amounts as CPython computes it before version 3.12. Every prefix of a run is
  a run, so this holds after each append.
\<close>

theorem running_total_is_fold:
  "total_usdc_received (fst (snd (monitor_usdc_transactions st cs))) =
     foldl (+) 0 (map snd (transaction_history (fst (snd (monitor_usdc_transactions st cs))))) \<and>
   total_usdc_received (fst (snd (monitor_usdc_transactions st cs))) =
     py_sum Before_3_12
       (map snd (transaction_history (fst (snd (monitor_usdc_transactions st cs)))))"
  using monitor_total_is_sum [of st cs] by (simp add: total_is_sum_def py_sum_def)

subsection \<open>The running total on doubles\<close>

text \<open>
  Rules that evaluate the arithmetic of doubles at numerals, and the loop on a given run.
\<close>

lemma normalise_numeral:
  "normalise (numeral k) m =
     (if m < 2 ^ 52 then normalise (numeral k - 1) (2 * m) / 2
      else if 2 ^ 53 \<le> m then 2 * normalise (numeral k - 1) (m / 2)
      else of_int (round_half_even m))"
  by (subst normalise.simps) simp

lemmas double_eval =
  floor_numeral_div fl_def normalise_numeral round_half_even_def Let_def double_of_def
  plus_double_def minus_double_def zero_double_def less_double_def less_eq_double_def
  abs_double_def

lemmas loop_eval =
  monitor_usdc_transactions_def and_then_def printing_def print_lines_def calling_def
  iteration_def try_body_def delta_handling_def Let_def CHECK_INTERVAL_def quiet_pass_def
  alert_fails_def console_closed_def quiet_start_def

lemma readings:
  "double_of 5 = Double 5"
  "double_of 5.3 = Double (5967269506265907 / 1125899906842624)"
  "double_of 15.31 = Double (8618763786880287 / 562949953421312)"
  "double_of 16.01 = Double (4506414377137603 / 281474976710656)"
  by (simp_all add: double_eval)

lemma readings_run_state:
  "fst (snd readings_run) =
     \<lparr>total_usdc_received = Double (6198078987168647 / 562949953421312),
      transaction_history =
        [(at_minute 5, Double (337769972052787 / 1125899906842624)),
         (at_minute 10, Double (2817564516873667 / 281474976710656)),
         (at_minute 15, Double (394064967394919 / 562949953421312))],
      monitoring_start_time = Some (at_minute 0),
      initial_balance = Double (4506414377137603 / 281474976710656)\<rparr>"
  unfolding readings_run_def readings
  by (simp add: loop_eval plus_double_def minus_double_def zero_double_def less_double_def
      fl_def normalise_numeral round_half_even_def floor_numeral_div)

text \<open>
  Against claim C1 as it is stated (the total equals \<^verbatim>\<open>sum\<close> of the amounts): since
  CPython 3.12 the built-in sum of floats is compensated, and it can differ from the
  total in the last place. With the balance 5 at the start, then read as 5.3, 15.31 and
  16.01, the running total is 11.010000000000003, which is the sum from left to right,
  and the compensated sum of the three amounts is 11.010000000000002.
\<close>

theorem running_total_is_not_compensated_sum:
  "total_usdc_received (fst (snd readings_run)) = Double (6198078987168647 / 562949953421312) \<and>
   py_sum Since_3_12 (map snd (transaction_history (fst (snd readings_run)))) =
     Double (3099039493584323 / 281474976710656) \<and>
   py_sum Before_3_12 (map snd (transaction_history (fst (snd readings_run)))) =
     Double (6198078987168647 / 562949953421312)"
  unfolding readings_run_state
  by (simp add: py_sum_def plus_double_def minus_double_def zero_double_def less_eq_double_def
      abs_double_def fl_def normalise_numeral round_half_even_def floor_numeral_div Let_def)

subsection \<open>A rise and a fall of the balance\<close>

lemma print_lines_fst: "fst (print_lines outcome lines) = print_raises outcome (length lines)"
  by (cases outcome) (auto simp: print_lines_def print_raises_def)

lemma printing_fst: "fst (printing outcome lines s) = print_raises outcome (length lines)"
  by (simp add: printing_def split_beta print_lines_fst)

lemma printing_fst_1: "fst (printing outcome [a] s) = print_raises outcome 1"
  by (simp add: printing_fst)

lemma printing_fst_2: "fst (printing outcome [a, b] s) = print_raises outcome 2"
  by (simp add: printing_fst numeral_2_eq_2)

lemma printing_fst_4: "fst (printing outcome [a, b, c, d] s) = print_raises outcome 4"
  by (simp add: printing_fst eval_nat_numeral)

lemmas printing_raises = printing_fst_1 printing_fst_2 printing_fst_4

lemma calling_fst: "fst (calling raises done s) = raises"
  by (simp add: calling_def split: option.split)

lemma and_then_fst:
  "fst (and_then first second) =
     (case fst first of Some e \<Rightarrow> Some e | None \<Rightarrow> fst (second (fst (snd first))))"
  by (cases first; cases "fst first") (auto simp: and_then_def split: prod.split)

lemma delta_handling_fst:
  "fst (delta_handling c current_balance s) =
     (if current_balance > initial_balance s then print_raises (alert_printed c) 4 else None)"
  by (simp add: delta_handling_def Let_def and_then_fst printing_raises split: option.split)

lemma delta_handling_state:
  "fst (snd (delta_handling c current_balance s)) =
     (if current_balance > initial_balance s then
        s\<lparr>total_usdc_received := total_usdc_received s + (current_balance - initial_balance s),
          transaction_history :=
            transaction_history s @ [(current_time c, current_balance - initial_balance s)],
          initial_balance :=
            (if print_raises (alert_printed c) 4 = None then current_balance
             else initial_balance s)\<rparr>
      else if current_balance < initial_balance s then s\<lparr>initial_balance := current_balance\<rparr>
      else s)"
  by (simp add: delta_handling_def Let_def and_then_state printing_state printing_raises
      split: option.split)

lemma first_raised_Cons:
  "first_raised (r # rs) = (case r of Some e \<Rightarrow> Some e | None \<Rightarrow> first_raised rs)"
  by (cases r) simp_all

lemma try_body_fst: "fst (try_body c s) = raised c s"
  by (simp add: try_body_def raised_def and_then_fst delta_handling_fst printing_raises
      calling_fst first_raised_Cons split: sum.split option.split)

text \<open>
  A pass that reads a balance above the baseline appends one record and adds its amount
  to the total. It makes the balance the new baseline only if the four lines of the alert
  have been printed: the assignment stands after them.
\<close>

lemma iteration_rise:
  assumes "balance_read c = Inr current_balance" and "current_balance > initial_balance s"
  shows "fst (snd (iteration c s)) =
     s\<lparr>total_usdc_received := total_usdc_received s + (current_balance - initial_balance s),
       transaction_history :=
         transaction_history s @ [(current_time c, current_balance - initial_balance s)],
       initial_balance :=
         (if print_raises (alert_printed c) 4 = None then current_balance
          else initial_balance s)\<rparr>"
  using assms by (simp add: iteration_state try_body_state delta_handling_state)

text \<open>
  Claim C5 fails in the code. The baseline is 100, nothing has been received, and the
  pass reads 150 on a console whose encoding has no warning sign, so that the first line
  of the alert cannot be printed. The record of 50 is appended and the total becomes 50,
  but the exception of the \<^verbatim>\<open>print\<close> leaves the body of the \<^verbatim>\<open>try\<close> before the assignment
  of the new baseline: the baseline is still 100. The next pass reads 150 again and books
  the same 50 a second time: two records and a total of 100 for one transfer of 50.
\<close>

theorem alert_failure_books_the_rise_twice:
  "iteration (alert_fails (at_minute 5) 150) state_at_100 =
     (None,
      \<lparr>total_usdc_received = 50, transaction_history = [(at_minute 5, 50)],
       monitoring_start_time = Some (at_minute 0), initial_balance = 100\<rparr>,
      [Error_Line (at_minute 5) (Exception ''UnicodeEncodeError''), Empty_Line, Sleep 300]) \<and>
   polling [alert_fails (at_minute 5) 150, alert_fails (at_minute 10) 150] state_at_100 =
     (None,
      \<lparr>total_usdc_received = 100,
       transaction_history = [(at_minute 5, 50), (at_minute 10, 50)],
       monitoring_start_time = Some (at_minute 0), initial_balance = 100\<rparr>,
      [Error_Line (at_minute 5) (Exception ''UnicodeEncodeError''), Empty_Line, Sleep 300,
       Error_Line (at_minute 10) (Exception ''UnicodeEncodeError''), Empty_Line, Sleep 300])"
  by (simp add: loop_eval state_at_100_def)

text \<open>
  Claim C6. In a pass that reads a balance strictly below the baseline the loop makes the
  balance the new baseline and changes nothing else: the history and the running total
  are as before. A later pass that reads a balance above this new baseline records the
  rise from the new baseline as an inbound transfer; it makes its reading the baseline
  if its alert has been printed.
\<close>

theorem outbound_delta:
  assumes "balance_read c = Inr current_balance" and "current_balance < initial_balance s"
  shows "fst (snd (iteration c s)) = s\<lparr>initial_balance := current_balance\<rparr> \<and>
     transaction_history (fst (snd (iteration c s))) = transaction_history s \<and>
     total_usdc_received (fst (snd (iteration c s))) = total_usdc_received s \<and>
     (\<forall>c' later_balance. balance_read c' = Inr later_balance \<and> later_balance > current_balance \<longrightarrow>
        fst (snd (iteration c' (fst (snd (iteration c s))))) =
          s\<lparr>total_usdc_received := total_usdc_received s + (later_balance - current_balance),
            transaction_history :=
              transaction_history s @ [(current_time c', later_balance - current_balance)],
            initial_balance :=
              (if print_raises (alert_printed c') 4 = None then later_balance
               else current_balance)\<rparr>)"
proof -
  have 1: "fst (snd (iteration c s)) = s\<lparr>initial_balance := current_balance\<rparr>"
    using assms by (simp add: iteration_state try_body_state delta_handling_state)
  then show ?thesis
    by (simp add: iteration_rise)
qed

theorem outbound_delta_witness:
  "balance_read (quiet_pass (at_minute 10) 120) = Inr 120 \<and>
   120 < initial_balance state_at_150 \<and>
   fst (snd (iteration (quiet_pass (at_minute 10) 120) state_at_150)) =
     state_at_150\<lparr>initial_balance := 120\<rparr> \<and>
   balance_read (quiet_pass (at_minute 15) 200) = Inr 200 \<and>
   fst (snd (iteration (quiet_pass (at_minute 15) 200)
          (fst (snd (iteration (quiet_pass (at_minute 10) 120) state_at_150))))) =
     \<lparr>total_usdc_received = 130,
      transaction_history = [(at_minute 5, 50), (at_minute 15, 80)],
      monitoring_start_time = Some (at_minute 0), initial_balance = 200\<rparr>"
  using outbound_delta [of "quiet_pass (at_minute 10) 120" 120 state_at_150]
  by (simp add: quiet_pass_def state_at_150_def iteration_state try_body_state
      delta_handling_state print_raises_def)

subsection \<open>Exceptions\<close>

lemma print_lines_2:
  "print_lines outcome [a, b] =
     (case print_raises outcome 2 of
        None \<Rightarrow> (None, [a, b])
      | Some e \<Rightarrow> (Some e, take (fst (the outcome)) [a, b]))"
  by (cases outcome) (auto simp: print_lines_def print_raises_def numeral_2_eq_2)

lemma iteration_caught:
  assumes "try_body c s = (Some e, s', out)"
  shows "iteration c s =
     (case print_raises (error_printed c) 2 of
        None \<Rightarrow> (None, s', out @ [Error_Line (error_time c) e, Empty_Line, Sleep CHECK_INTERVAL])
      | Some e' \<Rightarrow>
          (Some e', s',
           out @ take (fst (the (error_printed c))) [Error_Line (error_time c) e, Empty_Line]))"
  using assms by (simp add: iteration_def print_lines_2 split: option.split)

text \<open>
  Claim C9, amended. When an exception arises in a pass, at any place of the body of the
  \<^verbatim>\<open>try\<close> (the reading of the balance, a line of the alert in the handling of a rise, the
  line of the balance, the printing of the statistics, their sending, the last two
  lines), it leaves the body and is caught. If the two lines of the handler are printed,
  the pass ends normally, having printed the time and the exception and then slept, and
  the loop goes on with the next pass from the state the pass has reached. If a
  \<^verbatim>\<open>print\<close> of the handler raises, that exception leaves the pass and ends the loop: no
  further pass runs.
\<close>

theorem exception_caught:
  assumes "raised c s = Some e"
  shows "\<exists>s' out. try_body c s = (Some e, s', out) \<and>
     (print_raises (error_printed c) 2 = None \<longrightarrow>
        iteration c s =
          (None, s', out @ [Error_Line (error_time c) e, Empty_Line, Sleep CHECK_INTERVAL]) \<and>
        polling (c # cs) s =
          (fst (polling cs s'), fst (snd (polling cs s')),
           out @ [Error_Line (error_time c) e, Empty_Line, Sleep CHECK_INTERVAL] @
           snd (snd (polling cs s')))) \<and>
     (\<forall>e'. print_raises (error_printed c) 2 = Some e' \<longrightarrow>
        fst (iteration c s) = Some e' \<and> fst (snd (iteration c s)) = s' \<and>
        polling (c # cs) s = iteration c s)"
proof -
  obtain r s' out where "try_body c s = (r, s', out)"
    by (cases "try_body c s") auto
  with assms try_body_fst [of c s] have t: "try_body c s = (Some e, s', out)"
    by simp
  note i = iteration_caught [OF t]
  have ok: "print_raises (error_printed c) 2 = None \<longrightarrow>
      iteration c s =
        (None, s', out @ [Error_Line (error_time c) e, Empty_Line, Sleep CHECK_INTERVAL]) \<and>
      polling (c # cs) s =
        (fst (polling cs s'), fst (snd (polling cs s')),
         out @ [Error_Line (error_time c) e, Empty_Line, Sleep CHECK_INTERVAL] @
         snd (snd (polling cs s')))"
    by (simp add: i and_then_None)
  have bad: "\<forall>e'. print_raises (error_printed c) 2 = Some e' \<longrightarrow>
      fst (iteration c s) = Some e' \<and> fst (snd (iteration c s)) = s' \<and>
      polling (c # cs) s = iteration c s"
    by (simp add: i and_then_Some)
  show ?thesis
    by (intro exI conjI) (rule t, rule ok, rule bad)
qed

theorem exception_caught_witness:
  "raised (alert_fails (at_minute 10) 200) state_at_150 = Some (Exception ''UnicodeEncodeError'') \<and>
   print_raises (error_printed (alert_fails (at_minute 10) 200)) 2 = None \<and>
   polling [alert_fails (at_minute 10) 200, quiet_pass (at_minute 15) 200] state_at_150 =
     (None,
      \<lparr>total_usdc_received = 150,
       transaction_history = [(at_minute 5, 50), (at_minute 10, 50), (at_minute 15, 50)],
       monitoring_start_time = Some (at_minute 0), initial_balance = 200\<rparr>,
      [Error_Line (at_minute 10) (Exception ''UnicodeEncodeError''), Empty_Line, Sleep 300,
       Alert_Line (at_minute 15), Received_Line 50, New_Balance_Line 200, Empty_Line,
       Balance_Line (at_minute 15) 200, Statistics_Block, Discord_Post, Waiting_Line,
       Empty_Line, Sleep 300]) \<and>
   print_raises (error_printed (console_closed (at_minute 5) 100)) 2 =
     Some (Exception ''BrokenPipeError'') \<and>
   fst (iteration (console_closed (at_minute 5) 100) state_at_100) =
     Some (Exception ''BrokenPipeError'')"
  using exception_caught [of "alert_fails (at_minute 10) 200" state_at_150
      "Exception ''UnicodeEncodeError''" "[quiet_pass (at_minute 15) 200]"]
    exception_caught [of "console_closed (at_minute 5) 100" state_at_100
      "Exception ''BrokenPipeError''" "[]"]
  by (simp add: loop_eval raised_def print_raises_def state_at_150_def state_at_100_def)

text \<open>
  Against claim C9 as it is stated (no exception of a pass ends the loop): on a console
  that is closed the line of the balance cannot be printed, the handler catches the
  exception, and the line of the handler cannot be printed either. This exception leaves
  the loop, and the pass that would have followed does not run.
\<close>

theorem closed_console_ends_the_loop:
  "raised (console_closed (at_minute 5) 100) state_at_100 = Some (Exception ''BrokenPipeError'') \<and>
   polling [console_closed (at_minute 5) 100, quiet_pass (at_minute 10) 150] state_at_100 =
     (Some (Exception ''BrokenPipeError''), state_at_100, [])"
  by (simp add: loop_eval raised_def print_raises_def state_at_100_def)

section \<open>Properties of \<open>get_usdc_balance\<close>\<close>

lemmas rpc_examples =
  rpc_base_def rpc_no_token_account_def rpc_primary_fails_def rpc_negative_amount_def
  rpc_fallback_def rpc_unreachable_def rpc_bad_key_def rpc_bad_mint_def rpc_no_amount_def
  rpc_no_value_def

lemma get_usdc_balance_fallback_example:
  "get_usdc_balance rpc_fallback MONITORED_ADDRESS = (1, [])"
  by (simp add: get_usdc_balance_def balance_query_def fallback_balance_def rpc_examples
      replicate_numeral)

text \<open>
  Against claim C7 as it is stated (every provider error is logged; the value is never
  negative): when the owner has no token account, and when the balance query raises and
  there is no account data to fall back on, the function returns zero and prints
  nothing; when the balance response carries a negative amount, the function returns it.
\<close>

theorem get_usdc_balance_silent_zero_and_negative:
  "get_usdc_balance rpc_no_token_account MONITORED_ADDRESS = (0, []) \<and>
   get_usdc_balance rpc_primary_fails MONITORED_ADDRESS = (0, []) \<and>
   get_usdc_balance rpc_negative_amount MONITORED_ADDRESS = (- 1, [])"
  by (simp add: get_usdc_balance_def balance_query_def fallback_balance_def rpc_examples)

lemma fallback_balance_nonneg: "fallback_balance info = Some b \<Longrightarrow> 0 \<le> b"
  by (auto simp: fallback_balance_def split: option.splits if_splits)

lemma balance_query_nonneg:
  assumes "\<forall>account a. get_token_account_balance rpc account = Inr (Some (Some a)) \<longrightarrow> 0 \<le> a"
    and "balance_query rpc address = Inr b"
  shows "0 \<le> b"
  using assms(2) assms(1) fallback_balance_nonneg
  by (auto simp: balance_query_def split: option.splits sum.splits list.splits if_splits)

text \<open>
  Claim C7, amended. \<open>get_usdc_balance\<close> returns a value and the lines it has printed.
  Every exception that leaves the body of its \<^verbatim>\<open>try\<close> is printed and answered with zero:
  one raised by the making of the client, by the parsing of the address or of the address
  of the mint into a key, by the query of the token accounts or by the query of the
  account. A missing token account, and a balance query that raises while the account
  data cannot be decoded, are answered with zero and nothing is printed. Where the queries
  succeed the value is the \<^verbatim>\<open>ui_amount\<close> of the response, or zero if the response has no
  value or no amount; where the balance query raises and the account data can be decoded,
  it is the decoded balance; nothing is printed. The value returned is not negative when
  the provider reports no negative amount.
\<close>

theorem get_usdc_balance_contract:
  "(\<forall>e. balance_query rpc address = Inl e \<longrightarrow>
        get_usdc_balance rpc address = (0, [Balance_Error e])) \<and>
   (\<forall>e. new_client rpc = Some e \<longrightarrow>
        get_usdc_balance rpc address = (0, [Balance_Error e])) \<and>
   (\<forall>e. new_client rpc = None \<and> pubkey_from_string rpc address = Inl e \<longrightarrow>
        get_usdc_balance rpc address = (0, [Balance_Error e])) \<and>
   (\<forall>e. new_client rpc = None \<and> pubkey_from_string rpc address = Inr owner \<and>
        pubkey_from_string rpc USDC_MINT_ADDRESS = Inl e \<longrightarrow>
        get_usdc_balance rpc address = (0, [Balance_Error e])) \<and>
   (\<forall>e. get_token_accounts_by_owner rpc owner mint = Inl e \<and> new_client rpc = None \<and>
        pubkey_from_string rpc address = Inr owner \<and>
        pubkey_from_string rpc USDC_MINT_ADDRESS = Inr mint \<longrightarrow>
        get_usdc_balance rpc address = (0, [Balance_Error e])) \<and>
   (\<forall>account accounts e.
        get_token_accounts_by_owner rpc owner mint = Inr (account # accounts) \<and>
        new_client rpc = None \<and> pubkey_from_string rpc address = Inr owner \<and>
        pubkey_from_string rpc USDC_MINT_ADDRESS = Inr mint \<and>
        get_account_info rpc account = Inl e \<longrightarrow>
        get_usdc_balance rpc address = (0, [Balance_Error e])) \<and>
   (get_token_accounts_by_owner rpc owner mint = Inr [] \<and> new_client rpc = None \<and>
        pubkey_from_string rpc address = Inr owner \<and>
        pubkey_from_string rpc USDC_MINT_ADDRESS = Inr mint \<longrightarrow>
        get_usdc_balance rpc address = (0, [])) \<and>
   (\<forall>account accounts info e.
        get_token_accounts_by_owner rpc owner mint = Inr (account # accounts) \<and>
        new_client rpc = None \<and> pubkey_from_string rpc address = Inr owner \<and>
        pubkey_from_string rpc USDC_MINT_ADDRESS = Inr mint \<and>
        get_account_info rpc account = Inr info \<and>
        get_token_account_balance rpc account = Inl e \<and> fallback_balance info = None \<longrightarrow>
        get_usdc_balance rpc address = (0, [])) \<and>
   (\<forall>account accounts info e balance.
        get_token_accounts_by_owner rpc owner mint = Inr (account # accounts) \<and>
        new_client rpc = None \<and> pubkey_from_string rpc address = Inr owner \<and>
        pubkey_from_string rpc USDC_MINT_ADDRESS = Inr mint \<and>
        get_account_info rpc account = Inr info \<and>
        get_token_account_balance rpc account = Inl e \<and>
        fallback_balance info = Some balance \<longrightarrow>
        get_usdc_balance rpc address = (balance, [])) \<and>
   (\<forall>account accounts info response.
        get_token_accounts_by_owner rpc owner mint = Inr (account # accounts) \<and>
        new_client rpc = None \<and> pubkey_from_string rpc address = Inr owner \<and>
        pubkey_from_string rpc USDC_MINT_ADDRESS = Inr mint \<and>
        get_account_info rpc account = Inr info \<and>
        get_token_account_balance rpc account = Inr response \<longrightarrow>
        get_usdc_balance rpc address =
          (case response of None \<Rightarrow> 0 | Some None \<Rightarrow> 0 | Some (Some ui_amount) \<Rightarrow> ui_amount, [])) \<and>
   ((\<forall>account a. get_token_account_balance rpc account = Inr (Some (Some a)) \<longrightarrow> 0 \<le> a) \<longrightarrow>
        0 \<le> fst (get_usdc_balance rpc address))"
proof -
  have logged: "get_usdc_balance rpc address = (0, [Balance_Error e])"
    if "balance_query rpc address = Inl e" for e
    using that by (simp add: get_usdc_balance_def)
  have client: "balance_query rpc address = Inl e" if "new_client rpc = Some e" for e
    using that by (simp add: balance_query_def)
  have key: "balance_query rpc address = Inl e"
    if "new_client rpc = None \<and> pubkey_from_string rpc address = Inl e" for e
    using that by (simp add: balance_query_def)
  have mint_key: "balance_query rpc address = Inl e"
    if "new_client rpc = None \<and> pubkey_from_string rpc address = Inr owner \<and>
        pubkey_from_string rpc USDC_MINT_ADDRESS = Inl e" for e
    using that by (simp add: balance_query_def)
  have keys: "balance_query rpc address = Inl e"
    if "get_token_accounts_by_owner rpc owner mint = Inl e \<and> new_client rpc = None \<and>
        pubkey_from_string rpc address = Inr owner \<and>
        pubkey_from_string rpc USDC_MINT_ADDRESS = Inr mint" for e
    using that by (simp add: balance_query_def)
  have info: "balance_query rpc address = Inl e"
    if "get_token_accounts_by_owner rpc owner mint = Inr (account # accounts) \<and>
        new_client rpc = None \<and> pubkey_from_string rpc address = Inr owner \<and>
        pubkey_from_string rpc USDC_MINT_ADDRESS = Inr mint \<and>
        get_account_info rpc account = Inl e" for account accounts e
    using that by (simp add: balance_query_def)
  have missing: "get_usdc_balance rpc address = (0, [])"
    if "get_token_accounts_by_owner rpc owner mint = Inr [] \<and> new_client rpc = None \<and>
        pubkey_from_string rpc address = Inr owner \<and>
        pubkey_from_string rpc USDC_MINT_ADDRESS = Inr mint"
    using that by (simp add: get_usdc_balance_def balance_query_def)
  have silent: "get_usdc_balance rpc address = (0, [])"
    if "get_token_accounts_by_owner rpc owner mint = Inr (account # accounts) \<and>
        new_client rpc = None \<and> pubkey_from_string rpc address = Inr owner \<and>
        pubkey_from_string rpc USDC_MINT_ADDRESS = Inr mint \<and>
        get_account_info rpc account = Inr info \<and>
        get_token_account_balance rpc account = Inl e \<and> fallback_balance info = None"
    for account accounts info e
    using that by (simp add: get_usdc_balance_def balance_query_def)
  have decoded: "get_usdc_balance rpc address = (balance, [])"
    if "get_token_accounts_by_owner rpc owner mint = Inr (account # accounts) \<and>
        new_client rpc = None \<and> pubkey_from_string rpc address = Inr owner \<and>
        pubkey_from_string rpc USDC_MINT_ADDRESS = Inr mint \<and>
        get_account_info rpc account = Inr info \<and>
        get_token_account_balance rpc account = Inl e \<and>
        fallback_balance info = Some balance"
    for account accounts info e balance
    using that by (simp add: get_usdc_balance_def balance_query_def)
  have answered: "get_usdc_balance rpc address =
        (case response of None \<Rightarrow> 0 | Some None \<Rightarrow> 0 | Some (Some ui_amount) \<Rightarrow> ui_amount, [])"
    if "get_token_accounts_by_owner rpc owner mint = Inr (account # accounts) \<and>
        new_client rpc = None \<and> pubkey_from_string rpc address = Inr owner \<and>
        pubkey_from_string rpc USDC_MINT_ADDRESS = Inr mint \<and>
        get_account_info rpc account = Inr info \<and>
        get_token_account_balance rpc account = Inr response"
    for account accounts info response
    using that by (simp add: get_usdc_balance_def balance_query_def split: option.splits)
  have nonneg: "0 \<le> fst (get_usdc_balance rpc address)"
    if "\<forall>account a. get_token_account_balance rpc account = Inr (Some (Some a)) \<longrightarrow> 0 \<le> a"
    using that balance_query_nonneg [of rpc address]
    by (cases "balance_query rpc address") (simp_all add: get_usdc_balance_def)
  show ?thesis
    by (intro conjI allI impI)
      (rule logged, assumption, rule logged, rule client, assumption,
       rule logged, rule key, assumption, rule logged, rule mint_key, assumption,
       rule logged, rule keys, assumption, rule logged, rule info, assumption,
       rule missing, assumption, rule silent, assumption, rule decoded, assumption,
       rule answered, assumption, rule nonneg, assumption)
qed

theorem get_usdc_balance_contract_witness:
  "balance_query rpc_unreachable MONITORED_ADDRESS = Inl (Exception ''connection refused'') \<and>
   get_usdc_balance rpc_unreachable MONITORED_ADDRESS =
     (0, [Balance_Error (Exception ''connection refused'')]) \<and>
   pubkey_from_string rpc_bad_key MONITORED_ADDRESS = Inl (Exception ''ValueError'') \<and>
   get_usdc_balance rpc_bad_key MONITORED_ADDRESS =
     (0, [Balance_Error (Exception ''ValueError'')]) \<and>
   pubkey_from_string rpc_bad_mint MONITORED_ADDRESS = Inr MONITORED_ADDRESS \<and>
   pubkey_from_string rpc_bad_mint USDC_MINT_ADDRESS = Inl (Exception ''ValueError'') \<and>
   get_usdc_balance rpc_bad_mint MONITORED_ADDRESS =
     (0, [Balance_Error (Exception ''ValueError'')]) \<and>
   get_token_accounts_by_owner rpc_no_token_account MONITORED_ADDRESS USDC_MINT_ADDRESS = Inr [] \<and>
   get_usdc_balance rpc_no_token_account MONITORED_ADDRESS = (0, []) \<and>
   get_token_account_balance rpc_primary_fails ''token_account'' = Inl (Exception ''timeout'') \<and>
   fallback_balance None = None \<and>
   get_usdc_balance rpc_primary_fails MONITORED_ADDRESS = (0, []) \<and>
   get_usdc_balance rpc_fallback MONITORED_ADDRESS = (1, []) \<and>
   get_usdc_balance rpc_no_amount MONITORED_ADDRESS = (0, []) \<and>
   get_usdc_balance rpc_no_value MONITORED_ADDRESS = (0, []) \<and>
   get_token_account_balance rpc_base ''token_account'' = Inr (Some (Some 150)) \<and>
   get_usdc_balance rpc_base MONITORED_ADDRESS = (150, []) \<and>
   0 \<le> fst (get_usdc_balance rpc_base MONITORED_ADDRESS)"
  using get_usdc_balance_contract [of rpc_unreachable MONITORED_ADDRESS MONITORED_ADDRESS USDC_MINT_ADDRESS]
    get_usdc_balance_contract [of rpc_bad_key MONITORED_ADDRESS MONITORED_ADDRESS USDC_MINT_ADDRESS]
    get_usdc_balance_contract [of rpc_bad_mint MONITORED_ADDRESS MONITORED_ADDRESS USDC_MINT_ADDRESS]
    get_usdc_balance_contract [of rpc_no_token_account MONITORED_ADDRESS MONITORED_ADDRESS USDC_MINT_ADDRESS]
    get_usdc_balance_contract [of rpc_primary_fails MONITORED_ADDRESS MONITORED_ADDRESS USDC_MINT_ADDRESS]
    get_usdc_balance_contract [of rpc_base MONITORED_ADDRESS MONITORED_ADDRESS USDC_MINT_ADDRESS]
  by (simp add: get_usdc_balance_def balance_query_def fallback_balance_def rpc_examples
      replicate_numeral USDC_MINT_ADDRESS_def MONITORED_ADDRESS_def)

section \<open>Properties of \<open>send_discord_message\<close>\<close>

text \<open>
  Against claim C8 as it is stated (a response that is not 2xx gives \<open>False\<close>): a response
  with status 304 is not an error for \<^verbatim>\<open>raise_for_status\<close>, and the function returns
  \<open>True\<close>.
\<close>

theorem send_discord_message_true_on_304:
  "send_discord_message webhook_not_modified '''' None =
     (True, [], [\<lparr>content = '''', embeds = None\<rparr>])"
  by (simp add: send_discord_message_def discord_payload_def webhook_not_modified_def
      raise_for_status_def)

text \<open>
  Claim C8, amended. \<open>send_discord_message\<close> raises nothing and calls \<^verbatim>\<open>requests.post\<close>
  exactly once, with the payload made of its arguments. If the call raises (no
  connection, a timeout) or the response has a status from 400 to 599, it prints the
  error and returns \<open>False\<close>. It returns \<open>True\<close> exactly when the call returns a response
  whose status is not from 400 to 599.
\<close>

theorem send_discord_message_contract:
  "snd (snd (send_discord_message post content_arg embed_arg)) =
     [discord_payload content_arg embed_arg] \<and>
   (\<forall>e. post (discord_payload content_arg embed_arg) = Post_Raises e \<longrightarrow>
      send_discord_message post content_arg embed_arg =
        (False, [Discord_Error e], [discord_payload content_arg embed_arg])) \<and>
   (\<forall>status_code. post (discord_payload content_arg embed_arg) = Response status_code \<and>
        400 \<le> status_code \<and> status_code < 600 \<longrightarrow>
      send_discord_message post content_arg embed_arg =
        (False, [Discord_Error (Exception ''HTTPError'')],
         [discord_payload content_arg embed_arg])) \<and>
   fst (send_discord_message post content_arg embed_arg) =
     (\<exists>status_code. post (discord_payload content_arg embed_arg) = Response status_code \<and>
        \<not> (400 \<le> status_code \<and> status_code < 600))"
  by (auto simp: send_discord_message_def Let_def raise_for_status_def
      split: http_outcome.splits)

theorem send_discord_message_contract_witness:
  "webhook_unreachable (discord_payload ''text'' None) = Post_Raises (Exception ''ConnectionError'') \<and>
   send_discord_message webhook_unreachable ''text'' None =
     (False, [Discord_Error (Exception ''ConnectionError'')], [discord_payload ''text'' None]) \<and>
   webhook_rate_limited (discord_payload ''text'' None) = Response 429 \<and>
   send_discord_message webhook_rate_limited ''text'' None =
     (False, [Discord_Error (Exception ''HTTPError'')], [discord_payload ''text'' None]) \<and>
   webhook_accepts (discord_payload ''text'' None) = Response 204 \<and>
   fst (send_discord_message webhook_accepts ''text'' None)"
  using send_discord_message_contract [of webhook_unreachable "''text''" None]
    send_discord_message_contract [of webhook_rate_limited "''text''" None]
    send_discord_message_contract [of webhook_accepts "''text''" None]
  by (simp add: webhook_unreachable_def webhook_rate_limited_def webhook_accepts_def)

end
